theory Spec2Isabelle
  imports Main
begin

section \<open>JavaScript values and the operators the server uses\<close>

text \<open>
  The upstream API answers with loosely typed JSON, so the cleaners of
  \<^verbatim>\<open>src/index.ts\<close> work on values of type \<^verbatim>\<open>any\<close>. A value is one of JavaScript's
  \<^verbatim>\<open>undefined\<close>, \<^verbatim>\<open>null\<close>, a boolean, a number, a string, an array or an object.
  Numbers are integers here: the counts and bounds the server handles are integral, and
  the cleaners look at a number only through its being zero or not.
  An object is the list of its own properties in insertion order; reading a key finds
  its first entry.
\<close>

datatype jsval =
    JUndefined
  | JNull
  | JBool bool
  | JNum int
  | JStr string
  | JArr "jsval list"
  | JObj "(string \<times> jsval) list"

text \<open>What the server can throw. \<^verbatim>\<open>McpError\<close> is the protocol's typed error.\<close>

datatype error_code = InvalidParams | MethodNotFound | InternalError

datatype js_error =
    McpError error_code string
  | Error string
  | TypeError string

type_synonym 'a result = "js_error + 'a"

text \<open>\<^verbatim>\<open>ToBoolean\<close>: what \<^verbatim>\<open>!x\<close>, \<^verbatim>\<open>x || y\<close>, \<^verbatim>\<open>x ? a : b\<close> and \<^verbatim>\<open>filter(Boolean)\<close> test.\<close>

fun truthy :: "jsval \<Rightarrow> bool" where
  "truthy JUndefined = False"
| "truthy JNull = False"
| "truthy (JBool b) = b"
| "truthy (JNum n) = (n \<noteq> 0)"
| "truthy (JStr s) = (s \<noteq> [])"
| "truthy (JArr xs) = True"
| "truthy (JObj kvs) = True"

text \<open>What \<^verbatim>\<open>??\<close> and \<^verbatim>\<open>?.\<close> test: \<^verbatim>\<open>null\<close> or \<^verbatim>\<open>undefined\<close>.\<close>

fun nullish :: "jsval \<Rightarrow> bool" where
  "nullish JUndefined = True"
| "nullish JNull = True"
| "nullish v = False"

text \<open>
  Reading a property that is there or not: an object answers with the value or
  \<^verbatim>\<open>undefined\<close>; a boolean, number, string or array has none of the keys the server reads
  (none of them is a method or accessor of a prototype), so it answers \<^verbatim>\<open>undefined\<close>.
\<close>

fun js_get :: "jsval \<Rightarrow> string \<Rightarrow> jsval" where
  "js_get (JObj kvs) k = (case map_of kvs k of None \<Rightarrow> JUndefined | Some x \<Rightarrow> x)"
| "js_get v k = JUndefined"

fun type_name :: "jsval \<Rightarrow> string" where
  "type_name JNull = ''null''"
| "type_name v = ''undefined''"

definition cannot_read :: "jsval \<Rightarrow> string \<Rightarrow> string" where
  "cannot_read v k =
     ''Cannot read properties of '' @ type_name v @ '' (reading '' @ [CHR 0x27] @ k @ [CHR 0x27] @ '')''"

text \<open>\<^verbatim>\<open>v.k\<close>: a \<^verbatim>\<open>TypeError\<close> on \<^verbatim>\<open>null\<close> and \<^verbatim>\<open>undefined\<close>, the property otherwise.\<close>

definition js_prop :: "jsval \<Rightarrow> string \<Rightarrow> jsval result" where
  "js_prop v k = (if nullish v then Inl (TypeError (cannot_read v k)) else Inr (js_get v k))"

text \<open>
  \<^verbatim>\<open>a || b\<close>, \<^verbatim>\<open>a ?? b\<close> and \<^verbatim>\<open>a?.k\<close> over expressions that may throw: the left operand is
  evaluated first and its exception wins; the right one counts only when it is reached.
\<close>

definition js_or :: "jsval result \<Rightarrow> jsval result \<Rightarrow> jsval result" where
  "js_or a b = (case a of Inl e \<Rightarrow> Inl e | Inr v \<Rightarrow> if truthy v then Inr v else b)"

definition js_coalesce :: "jsval result \<Rightarrow> jsval result \<Rightarrow> jsval result" where
  "js_coalesce a b = (case a of Inl e \<Rightarrow> Inl e | Inr v \<Rightarrow> if nullish v then b else Inr v)"

definition js_optchain :: "jsval result \<Rightarrow> string \<Rightarrow> jsval result" where
  "js_optchain a k =
     (case a of Inl e \<Rightarrow> Inl e | Inr v \<Rightarrow> if nullish v then Inr JUndefined else js_prop v k)"

text \<open>An object literal evaluates its property values in order; the first exception leaves it.\<close>

fun fields_r :: "(string \<times> jsval result) list \<Rightarrow> (string \<times> jsval) list result" where
  "fields_r [] = Inr []"
| "fields_r ((k, r) # rest) =
     (case r of
        Inl e \<Rightarrow> Inl e
      | Inr v \<Rightarrow> (case fields_r rest of Inl e \<Rightarrow> Inl e | Inr kvs \<Rightarrow> Inr ((k, v) # kvs)))"

definition obj_r :: "(string \<times> jsval result) list \<Rightarrow> jsval result" where
  "obj_r fs = (case fields_r fs of Inl e \<Rightarrow> Inl e | Inr kvs \<Rightarrow> Inr (JObj kvs))"

text \<open>\<^verbatim>\<open>xs.map(f)\<close> for an \<open>f\<close> that may throw: left to right, the first exception leaves it.\<close>

fun map_r :: "('a \<Rightarrow> 'b result) \<Rightarrow> 'a list \<Rightarrow> 'b list result" where
  "map_r f [] = Inr []"
| "map_r f (x # xs) =
     (case f x of
        Inl e \<Rightarrow> Inl e
      | Inr y \<Rightarrow> (case map_r f xs of Inl e \<Rightarrow> Inl e | Inr ys \<Rightarrow> Inr (y # ys)))"

section \<open>The data cleaners\<close>

text \<open>\<^verbatim>\<open>DataCleaners.cleanUser\<close>.\<close>

definition cleanUser :: "jsval \<Rightarrow> jsval result" where
  "cleanUser user =
     (if \<not> truthy user then Inr JNull
      else obj_r
        [(''id'', js_prop user ''id''),
         (''username'',
            js_or (js_or (js_prop user ''userName'') (js_prop user ''screen_name'')) (js_prop user ''username'')),
         (''name'', js_prop user ''name''),
         (''description'', js_prop user ''description''),
         (''verified'',
            js_or (js_or (js_prop user ''isVerified'') (js_prop user ''verified'')) (js_prop user ''isBlueVerified'')),
         (''followers'', js_coalesce (js_prop user ''followers'') (js_prop user ''followers_count'')),
         (''following'', js_coalesce (js_prop user ''following'') (js_prop user ''following_count'')),
         (''tweets'',
            js_coalesce (js_coalesce (js_prop user ''statusesCount'') (js_prop user ''statuses_count''))
              (js_prop user ''tweet_count'')),
         (''location'', js_or (js_prop user ''location'') (Inr JUndefined)),
         (''url'', js_or (js_prop user ''url'') (Inr JUndefined)),
         (''created'', js_or (js_prop user ''createdAt'') (js_prop user ''created_at''))])"

text \<open>\<^verbatim>\<open>DataCleaners.cleanTweet\<close>. The author is cleaned only when it is truthy.\<close>

definition cleanTweet :: "jsval \<Rightarrow> jsval result" where
  "cleanTweet tweet =
     (if \<not> truthy tweet then Inr JNull
      else obj_r
        [(''id'', js_prop tweet ''id''),
         (''text'', js_prop tweet ''text''),
         (''author'',
            (case js_prop tweet ''author'' of
               Inl e \<Rightarrow> Inl e
             | Inr a \<Rightarrow> if truthy a then cleanUser a else Inr JUndefined)),
         (''created'', js_or (js_prop tweet ''createdAt'') (js_prop tweet ''created_at'')),
         (''retweets'',
            js_coalesce (js_prop tweet ''retweetCount'')
              (js_optchain (js_prop tweet ''public_metrics'') ''retweet_count'')),
         (''likes'',
            js_coalesce (js_prop tweet ''likeCount'')
              (js_optchain (js_prop tweet ''public_metrics'') ''like_count'')),
         (''replies'',
            js_coalesce (js_prop tweet ''replyCount'')
              (js_optchain (js_prop tweet ''public_metrics'') ''reply_count'')),
         (''quotes'',
            js_coalesce (js_prop tweet ''quoteCount'')
              (js_optchain (js_prop tweet ''public_metrics'') ''quote_count'')),
         (''views'', js_prop tweet ''viewCount''),
         (''isReply'', js_prop tweet ''isReply''),
         (''isRetweet'', js_prop tweet ''isRetweet''),
         (''inReplyTo'', js_or (js_prop tweet ''inReplyToId'') (js_prop tweet ''in_reply_to'')),
         (''conversationId'', js_prop tweet ''conversationId''),
         (''lang'', js_prop tweet ''lang'')])"

text \<open>
  \<^verbatim>\<open>DataCleaners.cleanUserList\<close> and \<^verbatim>\<open>cleanTweetList\<close>: \<^verbatim>\<open>Array.isArray\<close>, then
  \<^verbatim>\<open>map(clean).filter(Boolean)\<close>.
\<close>

definition cleanUserList :: "jsval \<Rightarrow> jsval list result" where
  "cleanUserList users =
     (case users of
        JArr xs \<Rightarrow> (case map_r cleanUser xs of Inl e \<Rightarrow> Inl e | Inr ys \<Rightarrow> Inr (filter truthy ys))
      | _ \<Rightarrow> Inr [])"

definition cleanTweetList :: "jsval \<Rightarrow> jsval list result" where
  "cleanTweetList tweets =
     (case tweets of
        JArr xs \<Rightarrow> (case map_r cleanTweet xs of Inl e \<Rightarrow> Inl e | Inr ys \<Rightarrow> Inr (filter truthy ys))
      | _ \<Rightarrow> Inr [])"

section \<open>Strings the server builds\<close>

text \<open>
  \<^verbatim>\<open>ToString\<close>, as a template literal applies it: decimal digits for a number, the
  elements joined by commas for an array (\<^verbatim>\<open>null\<close> and \<^verbatim>\<open>undefined\<close> as the empty string).
\<close>

definition digit_of :: "nat \<Rightarrow> char" where
  "digit_of n = ''0123456789'' ! n"

function dec_nat :: "nat \<Rightarrow> string" where
  "dec_nat n = (if n < 10 then [digit_of n] else dec_nat (n div 10) @ [digit_of (n mod 10)])"
  by pat_completeness auto
termination
  by (relation "measure id") auto

definition dec_int :: "int \<Rightarrow> string" where
  "dec_int i = (if i < 0 then CHR ''-'' # dec_nat (nat (- i)) else dec_nat (nat i))"

fun join_with :: "string \<Rightarrow> string list \<Rightarrow> string" where
  "join_with sep [] = []"
| "join_with sep [x] = x"
| "join_with sep (x # xs) = x @ sep @ join_with sep xs"

fun to_string :: "jsval \<Rightarrow> string" where
  "to_string JUndefined = ''undefined''"
| "to_string JNull = ''null''"
| "to_string (JBool b) = (if b then ''true'' else ''false'')"
| "to_string (JNum n) = dec_int n"
| "to_string (JStr s) = s"
| "to_string (JArr xs) = join_with '','' (map (\<lambda>x. if nullish x then [] else to_string x) xs)"
| "to_string (JObj kvs) = ''[object Object]''"

text \<open>\<^verbatim>\<open>error.message\<close>. A \<^verbatim>\<open>McpError\<close> is kept with the message its constructor was given.\<close>

fun error_message :: "js_error \<Rightarrow> string" where
  "error_message (McpError c m) = m"
| "error_message (Error m) = m"
| "error_message (TypeError m) = m"

text \<open>Arguments as TypeScript types them: a string, number or boolean that may be missing.\<close>

fun str_val :: "string option \<Rightarrow> jsval" where
  "str_val None = JUndefined"
| "str_val (Some s) = JStr s"

fun str_truthy :: "string option \<Rightarrow> bool" where
  "str_truthy None = False"
| "str_truthy (Some s) = (s \<noteq> [])"

fun num_val :: "int option \<Rightarrow> jsval" where
  "num_val None = JUndefined"
| "num_val (Some n) = JNum n"

fun num_truthy :: "int option \<Rightarrow> bool" where
  "num_truthy None = False"
| "num_truthy (Some n) = (n \<noteq> 0)"

definition bind_r :: "'a result \<Rightarrow> ('a \<Rightarrow> 'b result) \<Rightarrow> 'b result" where
  "bind_r r f = (case r of Inl e \<Rightarrow> Inl e | Inr x \<Rightarrow> f x)"

section \<open>The server, the upstream API and the file system\<close>

datatype http_method = GET | POST

text \<open>
  An HTTP request as the server hands it to axios: the query parameters of a GET or the
  body of a POST, and the headers it adds.
\<close>

record request =
  req_method :: http_method
  req_endpoint :: string
  req_payload :: jsval
  req_headers :: jsval

text \<open>
  What axios does with a request: it resolves with \<^verbatim>\<open>response.data\<close>, rejects with an
  axios error (its \<^verbatim>\<open>response\<close>, \<^verbatim>\<open>undefined\<close> when none came, and its \<^verbatim>\<open>message\<close>), or
  rejects with another error.
\<close>

datatype http_outcome =
    HttpOk jsval
  | AxiosError jsval string
  | OtherError js_error

text \<open>
  What is outside the server during one call: the upstream API, the clock
  (\<^verbatim>\<open>new Date().toISOString()\<close>), \<^verbatim>\<open>path.join\<close>, and whether \<^verbatim>\<open>fs.mkdirSync\<close> and
  \<^verbatim>\<open>fs.writeFileSync\<close> throw (with the text of the exception).
\<close>

record world =
  upstream :: "request \<Rightarrow> http_outcome"
  now_iso :: string
  path_join :: "string \<Rightarrow> string \<Rightarrow> string"
  mkdir_error :: "string \<Rightarrow> string option"
  write_error :: "string \<Rightarrow> string option"

text \<open>
  A text the server produces is kept as the value serialised and the serialiser:
  \<open>JsonText v\<close> is \<^verbatim>\<open>JSON.stringify(v, null, 2)\<close>, and \<open>ToonText v s\<close> is the TOON encoding
  \<^verbatim>\<open>encode(v)\<close> followed by \<open>s\<close>. A \<^verbatim>\<open>CallToolResult\<close> holds one text.
\<close>

datatype tool_text = JsonText jsval | ToonText jsval string

text \<open>
  The server object: its two fields, the HTTP requests issued so far (oldest first),
  and the directories and files of the disk.
\<close>

record server =
  apiKey :: string
  loginCookie :: jsval
  requests :: "request list"
  dirs :: "string set"
  files :: "string \<rightharpoonup> tool_text"

text \<open>
  What \<^verbatim>\<open>JSON.parse\<close> returns on \<^verbatim>\<open>JSON.stringify(v, null, 2)\<close>: a property whose value is
  \<^verbatim>\<open>undefined\<close> is left out, an \<^verbatim>\<open>undefined\<close> array element is \<^verbatim>\<open>null\<close>.
  \<^verbatim>\<open>JSON.stringify(undefined)\<close> is no text.
\<close>

fun json_image :: "jsval \<Rightarrow> jsval"
  and json_items :: "jsval list \<Rightarrow> jsval list"
  and json_fields :: "(string \<times> jsval) list \<Rightarrow> (string \<times> jsval) list" where
  "json_image (JArr xs) = JArr (json_items xs)"
| "json_image (JObj kvs) = JObj (json_fields kvs)"
| "json_image JUndefined = JUndefined"
| "json_image JNull = JNull"
| "json_image (JBool b) = JBool b"
| "json_image (JNum n) = JNum n"
| "json_image (JStr s) = JStr s"
| "json_items [] = []"
| "json_items (x # xs) = (if x = JUndefined then JNull else json_image x) # json_items xs"
| "json_fields [] = []"
| "json_fields ((k, v) # kvs) =
     (if v = JUndefined then json_fields kvs else (k, json_image v) # json_fields kvs)"

fun json_parse :: "tool_text \<Rightarrow> jsval option" where
  "json_parse (JsonText v) = (if v = JUndefined then None else Some (json_image v))"
| "json_parse (ToonText v s) = None"

text \<open>The headers both request functions add: the API key and the login cookie, when truthy.\<close>

definition auth_headers :: "server \<Rightarrow> jsval" where
  "auth_headers st = JObj
     ((if apiKey st \<noteq> [] then [(''x-api-key'', JStr (apiKey st))] else [])
      @ (if truthy (loginCookie st) then [(''Cookie'', loginCookie st)] else []))"

text \<open>
  The message of the error both request functions throw for an axios error:
  \<^verbatim>\<open>error.response?.status || 500\<close> and \<^verbatim>\<open>error.response?.data?.error || error.message\<close>.
\<close>

definition api_error_message :: "jsval \<Rightarrow> string \<Rightarrow> string" where
  "api_error_message response message =
     (let status = (if nullish response then JUndefined else js_get response ''status'');
          statusCode = (if truthy status then status else JNum 500);
          body = (if nullish response then JUndefined else js_get response ''data'');
          err = (if nullish body then JUndefined else js_get body ''error'');
          errorMessage = (if truthy err then err else JStr message)
      in ''TwitterAPI.io API error ('' @ to_string statusCode @ ''): '' @ to_string errorMessage)"

definition send :: "world \<Rightarrow> server \<Rightarrow> request \<Rightarrow> jsval result \<times> server" where
  "send w st req =
     (let st' = st\<lparr>requests := requests st @ [req]\<rparr>
      in case upstream w req of
           HttpOk d \<Rightarrow> (Inr d, st')
         | AxiosError response message \<Rightarrow> (Inl (Error (api_error_message response message)), st')
         | OtherError e \<Rightarrow> (Inl e, st'))"

text \<open>\<^verbatim>\<open>makeRequest\<close> and \<^verbatim>\<open>makePostRequest\<close>.\<close>

definition makeRequest :: "world \<Rightarrow> server \<Rightarrow> string \<Rightarrow> jsval \<Rightarrow> jsval result \<times> server" where
  "makeRequest w st endpoint params =
     send w st \<lparr>req_method = GET, req_endpoint = endpoint, req_payload = params,
                req_headers = auth_headers st\<rparr>"

definition makePostRequest :: "world \<Rightarrow> server \<Rightarrow> string \<Rightarrow> jsval \<Rightarrow> jsval result \<times> server" where
  "makePostRequest w st endpoint body =
     send w st \<lparr>req_method = POST, req_endpoint = endpoint, req_payload = body,
                req_headers = auth_headers st\<rparr>"

section \<open>Shaping and saving a response\<close>

text \<open>\<^verbatim>\<open>fs.existsSync\<close>.\<close>

definition existsSync :: "server \<Rightarrow> string \<Rightarrow> bool" where
  "existsSync st p = (p \<in> dirs st \<or> files st p \<noteq> None)"

definition save_filename :: "world \<Rightarrow> string \<Rightarrow> string" where
  "save_filename w toolName =
     toolName @ ''_''
     @ map (\<lambda>c. if c = CHR '':'' \<or> c = CHR ''.'' then CHR ''-'' else c) (now_iso w)
     @ ''.json''"

text \<open>\<^verbatim>\<open>saveData\<close>: the path written, or the text of what went wrong; it never throws.\<close>

definition saveData :: "world \<Rightarrow> server \<Rightarrow> jsval \<Rightarrow> string \<Rightarrow> string \<Rightarrow> string \<times> server" where
  "saveData w st payload dir toolName =
     (let made = (if existsSync st dir then Inr st
                  else case mkdir_error w dir of
                         Some e \<Rightarrow> Inl e
                       | None \<Rightarrow> Inr (st\<lparr>dirs := insert dir (dirs st)\<rparr>))
      in case made of
           Inl e \<Rightarrow> (''Error saving: '' @ e, st)
         | Inr st1 \<Rightarrow>
             (let filepath = path_join w dir (save_filename w toolName)
              in case write_error w filepath of
                   Some e \<Rightarrow> (''Error saving: '' @ e, st1)
                 | None \<Rightarrow> (filepath, st1\<lparr>files := (files st1)(filepath \<mapsto> JsonText payload)\<rparr>)))"

text \<open>The \<^verbatim>\<open>output\<close> object of \<^verbatim>\<open>formatResponse\<close>: the data, and the pagination block when
  the caller passed one.\<close>

definition envelope :: "jsval \<Rightarrow> jsval \<Rightarrow> jsval" where
  "envelope cleanedData pagination = JObj
     ((''data'', cleanedData)
      # (if truthy pagination
         then [(''pagination'',
                JObj [(''hasNextPage'', js_get pagination ''has_next_page''),
                      (''nextCursor'', js_get pagination ''next_cursor'')])]
         else []))"

definition saved_note :: "string \<Rightarrow> string" where
  "saved_note savedPath =
     (if savedPath \<noteq> [] then [CHR 0x0A, CHR 0x0A] @ ''[Cleaned data saved to: '' @ savedPath @ '']''
      else [])"

text \<open>\<^verbatim>\<open>formatResponse\<close>; the three options are \<^verbatim>\<open>saveDir\<close>, \<^verbatim>\<open>toolName\<close> and \<^verbatim>\<open>pagination\<close>.\<close>

definition formatResponse ::
  "world \<Rightarrow> server \<Rightarrow> jsval \<Rightarrow> string option \<Rightarrow> string option \<Rightarrow> jsval \<Rightarrow> tool_text \<times> server" where
  "formatResponse w st cleanedData saveDir toolName pagination =
     (let output = envelope cleanedData pagination;
          (savedPath, st') =
             (case saveDir of
                None \<Rightarrow> ([], st)
              | Some dir \<Rightarrow>
                  (case toolName of
                     None \<Rightarrow> ([], st)
                   | Some tool \<Rightarrow>
                       if dir \<noteq> [] \<and> tool \<noteq> [] then saveData w st output dir tool
                       else ([], st)))
      in (ToonText output (saved_note savedPath), st'))"

text \<open>\<^verbatim>\<open>...(saveDir && { saveDir })\<close>: the option is there only for a non-empty string.\<close>

definition spread_saveDir :: "string option \<Rightarrow> string option" where
  "spread_saveDir saveDir = (if str_truthy saveDir then saveDir else None)"

text \<open>\<^verbatim>\<open>maxItems || 10\<close>, and \<^verbatim>\<open>xs.slice(0, end)\<close>, which counts a negative end from the back.\<close>

definition max_bound :: "int option \<Rightarrow> int" where
  "max_bound maxItems = (case maxItems of None \<Rightarrow> 10 | Some m \<Rightarrow> if m \<noteq> 0 then m else 10)"

definition slice0 :: "'a list \<Rightarrow> int \<Rightarrow> 'a list" where
  "slice0 xs e = (if e < 0 then take (nat (int (length xs) + e)) xs else take (nat e) xs)"

text \<open>The pagination option of the list operations.\<close>

definition pagination_of :: "jsval \<Rightarrow> jsval result" where
  "pagination_of d =
     obj_r [(''has_next_page'', js_prop d ''has_next_page''),
            (''next_cursor'', js_prop d ''next_cursor'')]"

definition reply :: "tool_text \<times> server \<Rightarrow> tool_text result \<times> server" where
  "reply r = (case r of (t, st) \<Rightarrow> (Inr t, st))"

section \<open>The operations\<close>

text \<open>
  Each operation takes the environment and the server and returns what it returns or
  throws, with the server afterwards. Their arguments are typed as in the source, and any
  of them may be missing: the dispatcher casts without a check.
\<close>

definition getUserByUsername ::
  "world \<Rightarrow> server \<Rightarrow> string option \<Rightarrow> string option \<Rightarrow> int option \<Rightarrow> tool_text result \<times> server" where
  "getUserByUsername w st username saveDir maxItems =
     (case makeRequest w st ''/user/info'' (JObj [(''userName'', str_val username)]) of
        (Inl e, st1) \<Rightarrow> (Inl e, st1)
      | (Inr d, st1) \<Rightarrow>
          (case bind_r (js_or (js_prop d ''data'') (Inr d)) cleanUser of
             Inl e \<Rightarrow> (Inl e, st1)
           | Inr cleaned \<Rightarrow>
               reply (formatResponse w st1 cleaned (spread_saveDir saveDir)
                        (Some ''get_user_by_username'') JUndefined)))"

definition getUserById ::
  "world \<Rightarrow> server \<Rightarrow> string option \<Rightarrow> string option \<Rightarrow> int option \<Rightarrow> tool_text result \<times> server" where
  "getUserById w st userId saveDir maxItems =
     (case makeRequest w st ''/user/info'' (JObj [(''user_id'', str_val userId)]) of
        (Inl e, st1) \<Rightarrow> (Inl e, st1)
      | (Inr d, st1) \<Rightarrow>
          (case bind_r (js_or (js_prop d ''data'') (Inr d)) cleanUser of
             Inl e \<Rightarrow> (Inl e, st1)
           | Inr cleaned \<Rightarrow>
               reply (formatResponse w st1 cleaned (spread_saveDir saveDir)
                        (Some ''get_user_by_id'') JUndefined)))"

definition getUserTweets ::
  "world \<Rightarrow> server \<Rightarrow> string option \<Rightarrow> string option \<Rightarrow> string option \<Rightarrow> bool option
     \<Rightarrow> string option \<Rightarrow> int option \<Rightarrow> tool_text result \<times> server" where
  "getUserTweets w st username userId cursor includeReplies saveDir maxItems =
     (if \<not> str_truthy username \<and> \<not> str_truthy userId
      then (Inl (Error ''Either username or userId must be provided''), st)
      else
        (let params = JObj
               ((if str_truthy username then [(''userName'', str_val username)] else [])
                @ (if str_truthy userId then [(''userId'', str_val userId)] else [])
                @ (if str_truthy cursor then [(''cursor'', str_val cursor)] else [])
                @ [(''includeReplies'',
                    JBool (case includeReplies of None \<Rightarrow> False | Some b \<Rightarrow> b))])
         in case makeRequest w st ''/user/last_tweets'' params of
              (Inl e, st1) \<Rightarrow> (Inl e, st1)
            | (Inr d, st1) \<Rightarrow>
                (case bind_r (js_or (js_or (js_prop d ''tweets'') (js_prop d ''data'')) (Inr (JArr [])))
                        (\<lambda>tweets. bind_r (cleanTweetList tweets)
                        (\<lambda>cl. bind_r (pagination_of d)
                        (\<lambda>p. Inr (slice0 cl (max_bound maxItems), p)))) of
                   Inl e \<Rightarrow> (Inl e, st1)
                 | Inr (cleaned, p) \<Rightarrow>
                     reply (formatResponse w st1 (JArr cleaned) (spread_saveDir saveDir)
                              (Some ''get_user_tweets'') p))))"

definition searchTweets ::
  "world \<Rightarrow> server \<Rightarrow> string option \<Rightarrow> string option \<Rightarrow> string option
     \<Rightarrow> string option \<Rightarrow> int option \<Rightarrow> tool_text result \<times> server" where
  "searchTweets w st query queryType cursor saveDir maxItems =
     (let params = JObj
            ([(''query'', str_val query),
              (''queryType'', JStr (case queryType of None \<Rightarrow> ''Latest'' | Some q \<Rightarrow> q))]
             @ (if str_truthy cursor then [(''cursor'', str_val cursor)] else []))
      in case makeRequest w st ''/tweet/advanced_search'' params of
           (Inl e, st1) \<Rightarrow> (Inl e, st1)
         | (Inr d, st1) \<Rightarrow>
             (case bind_r (js_or (js_or (js_prop d ''tweets'') (js_prop d ''data'')) (Inr (JArr [])))
                     (\<lambda>tweets. bind_r (cleanTweetList tweets)
                     (\<lambda>cl. bind_r (pagination_of d)
                     (\<lambda>p. Inr (slice0 cl (max_bound maxItems), p)))) of
                Inl e \<Rightarrow> (Inl e, st1)
              | Inr (cleaned, p) \<Rightarrow>
                  reply (formatResponse w st1 (JArr cleaned) (spread_saveDir saveDir)
                           (Some ''search_tweets'') p)))"

text \<open>\<^verbatim>\<open>getTweetById\<close> takes \<^verbatim>\<open>maxItems\<close> and does not read it; \<^verbatim>\<open>tweetIds.join\<close> throws
  when the array is missing.\<close>

definition getTweetById ::
  "world \<Rightarrow> server \<Rightarrow> string list option \<Rightarrow> string option \<Rightarrow> int option
     \<Rightarrow> tool_text result \<times> server" where
  "getTweetById w st tweetIds saveDir maxItems =
     (case tweetIds of
        None \<Rightarrow> (Inl (TypeError (cannot_read JUndefined ''join'')), st)
      | Some ids \<Rightarrow>
          (case makeRequest w st ''/tweets'' (JObj [(''tweet_ids'', JStr (join_with '','' ids))]) of
             (Inl e, st1) \<Rightarrow> (Inl e, st1)
           | (Inr d, st1) \<Rightarrow>
               (case bind_r (js_or (js_or (js_prop d ''tweets'') (js_prop d ''data'')) (Inr (JArr [])))
                       cleanTweetList of
                  Inl e \<Rightarrow> (Inl e, st1)
                | Inr cleaned \<Rightarrow>
                    reply (formatResponse w st1 (JArr cleaned) (spread_saveDir saveDir)
                             (Some ''get_tweet_by_id'') JUndefined))))"

definition getTweetReplies ::
  "world \<Rightarrow> server \<Rightarrow> string option \<Rightarrow> string option \<Rightarrow> int option \<Rightarrow> int option
     \<Rightarrow> string option \<Rightarrow> int option \<Rightarrow> tool_text result \<times> server" where
  "getTweetReplies w st tweetId cursor sinceTime untilTime saveDir maxItems =
     (let params = JObj
            ([(''tweetId'', str_val tweetId)]
             @ (if str_truthy cursor then [(''cursor'', str_val cursor)] else [])
             @ (if num_truthy sinceTime then [(''sinceTime'', num_val sinceTime)] else [])
             @ (if num_truthy untilTime then [(''untilTime'', num_val untilTime)] else []))
      in case makeRequest w st ''/tweet/replies'' params of
           (Inl e, st1) \<Rightarrow> (Inl e, st1)
         | (Inr d, st1) \<Rightarrow>
             (case bind_r (js_or (js_or (js_or (js_prop d ''tweets'') (js_prop d ''replies''))
                                    (js_prop d ''data'')) (Inr (JArr [])))
                     (\<lambda>tweets. bind_r (cleanTweetList tweets)
                     (\<lambda>cl. bind_r (pagination_of d)
                     (\<lambda>p. Inr (slice0 cl (max_bound maxItems), p)))) of
                Inl e \<Rightarrow> (Inl e, st1)
              | Inr (cleaned, p) \<Rightarrow>
                  reply (formatResponse w st1 (JArr cleaned) (spread_saveDir saveDir)
                           (Some ''get_tweet_replies'') p)))"

definition getUserFollowers ::
  "world \<Rightarrow> server \<Rightarrow> string option \<Rightarrow> string option \<Rightarrow> int option
     \<Rightarrow> string option \<Rightarrow> int option \<Rightarrow> tool_text result \<times> server" where
  "getUserFollowers w st username cursor pageSize saveDir maxItems =
     (let params = JObj
            ([(''userName'', str_val username),
              (''pageSize'', JNum (min (case pageSize of None \<Rightarrow> 200 | Some n \<Rightarrow> n) 200))]
             @ (if str_truthy cursor then [(''cursor'', str_val cursor)] else []))
      in case makeRequest w st ''/user/followers'' params of
           (Inl e, st1) \<Rightarrow> (Inl e, st1)
         | (Inr d, st1) \<Rightarrow>
             (case bind_r (js_or (js_or (js_or (js_prop d ''users'') (js_prop d ''followers''))
                                    (js_prop d ''data'')) (Inr (JArr [])))
                     (\<lambda>users. bind_r (cleanUserList users)
                     (\<lambda>cl. bind_r (pagination_of d)
                     (\<lambda>p. Inr (slice0 cl (max_bound maxItems), p)))) of
                Inl e \<Rightarrow> (Inl e, st1)
              | Inr (cleaned, p) \<Rightarrow>
                  reply (formatResponse w st1 (JArr cleaned) (spread_saveDir saveDir)
                           (Some ''get_user_followers'') p)))"

definition getUserFollowing ::
  "world \<Rightarrow> server \<Rightarrow> string option \<Rightarrow> string option \<Rightarrow> int option
     \<Rightarrow> string option \<Rightarrow> int option \<Rightarrow> tool_text result \<times> server" where
  "getUserFollowing w st username cursor pageSize saveDir maxItems =
     (let params = JObj
            ([(''userName'', str_val username),
              (''pageSize'', JNum (min (case pageSize of None \<Rightarrow> 200 | Some n \<Rightarrow> n) 200))]
             @ (if str_truthy cursor then [(''cursor'', str_val cursor)] else []))
      in case makeRequest w st ''/user/followings'' params of
           (Inl e, st1) \<Rightarrow> (Inl e, st1)
         | (Inr d, st1) \<Rightarrow>
             (case bind_r (js_or (js_or (js_or (js_prop d ''followings'') (js_prop d ''users''))
                                    (js_prop d ''data'')) (Inr (JArr [])))
                     (\<lambda>users. bind_r (cleanUserList users)
                     (\<lambda>cl. bind_r (pagination_of d)
                     (\<lambda>p. Inr (slice0 cl (max_bound maxItems), p)))) of
                Inl e \<Rightarrow> (Inl e, st1)
              | Inr (cleaned, p) \<Rightarrow>
                  reply (formatResponse w st1 (JArr cleaned) (spread_saveDir saveDir)
                           (Some ''get_user_following'') p)))"

definition searchUsers ::
  "world \<Rightarrow> server \<Rightarrow> string option \<Rightarrow> string option \<Rightarrow> string option \<Rightarrow> int option
     \<Rightarrow> tool_text result \<times> server" where
  "searchUsers w st query cursor saveDir maxItems =
     (let params = JObj
            ([(''query'', str_val query)]
             @ (if str_truthy cursor then [(''cursor'', str_val cursor)] else []))
      in case makeRequest w st ''/user/search'' params of
           (Inl e, st1) \<Rightarrow> (Inl e, st1)
         | (Inr d, st1) \<Rightarrow>
             (case bind_r (js_or (js_or (js_prop d ''users'') (js_prop d ''data'')) (Inr (JArr [])))
                     (\<lambda>users. bind_r (cleanUserList users)
                     (\<lambda>cl. bind_r (pagination_of d)
                     (\<lambda>p. Inr (slice0 cl (max_bound maxItems), p)))) of
                Inl e \<Rightarrow> (Inl e, st1)
              | Inr (cleaned, p) \<Rightarrow>
                  reply (formatResponse w st1 (JArr cleaned) (spread_saveDir saveDir)
                           (Some ''search_users'') p)))"

text \<open>\<^verbatim>\<open>loginUser\<close>: its \<^verbatim>\<open>try\<close> spans the request and the reading of the answer.\<close>

definition loginPayload ::
  "string option \<Rightarrow> string option \<Rightarrow> string option \<Rightarrow> string option \<Rightarrow> string option \<Rightarrow> jsval" where
  "loginPayload userName email password proxy totpSecret = JObj
     ([(''user_name'', str_val userName), (''email'', str_val email),
       (''password'', str_val password), (''proxy'', str_val proxy)]
      @ (if str_truthy totpSecret then [(''totp_secret'', str_val totpSecret)] else []))"

definition login_failure :: "js_error \<Rightarrow> tool_text" where
  "login_failure e = JsonText (JObj [(''success'', JBool False), (''error'', JStr (error_message e))])"

definition loginUser ::
  "world \<Rightarrow> server \<Rightarrow> string option \<Rightarrow> string option \<Rightarrow> string option \<Rightarrow> string option
     \<Rightarrow> string option \<Rightarrow> tool_text result \<times> server" where
  "loginUser w st userName email password proxy totpSecret =
     (case makePostRequest w st ''/user_login_v2''
             (loginPayload userName email password proxy totpSecret) of
        (Inl e, st1) \<Rightarrow> (Inr (login_failure e), st1)
      | (Inr loginData, st1) \<Rightarrow>
          (case js_prop loginData ''login_cookie'' of
             Inl e \<Rightarrow> (Inr (login_failure e), st1)
           | Inr cookie \<Rightarrow>
               (Inr (JsonText (JObj
                  [(''success'', JBool (js_get loginData ''status'' = JStr ''success'')),
                   (''message'',
                      (if truthy (js_get loginData ''msg'') then js_get loginData ''msg''
                       else JStr ''Login successful'')),
                   (''login_cookie'', cookie)])),
                if truthy cookie then st1\<lparr>loginCookie := cookie\<rparr> else st1)))"

text \<open>\<^verbatim>\<open>createTweet\<close>.\<close>

definition createTweet ::
  "world \<Rightarrow> server \<Rightarrow> string option \<Rightarrow> string option \<Rightarrow> string option \<Rightarrow> string option
     \<Rightarrow> string list option \<Rightarrow> tool_text result \<times> server" where
  "createTweet w st tweetText proxy replyToTweetId attachmentUrl mediaIds =
     (if \<not> truthy (loginCookie st)
      then (Inl (Error ''Must login first before creating tweets''), st)
      else
        (let tweetData = JObj
               ([(''login_cookies'', loginCookie st), (''tweet_text'', str_val tweetText),
                 (''proxy'', str_val proxy)]
                @ (if str_truthy replyToTweetId
                   then [(''reply_to_tweet_id'', str_val replyToTweetId)] else [])
                @ (if str_truthy attachmentUrl
                   then [(''attachment_url'', str_val attachmentUrl)] else [])
                @ (case mediaIds of
                     None \<Rightarrow> []
                   | Some ms \<Rightarrow> if length ms > 0 then [(''media_ids'', JArr (map JStr ms))] else []))
         in case makePostRequest w st ''/create_tweet_v2'' tweetData of
              (Inl e, st1) \<Rightarrow> (Inl e, st1)
            | (Inr d, st1) \<Rightarrow> (Inr (JsonText d), st1)))"

section \<open>The dispatcher\<close>

text \<open>
  The argument object of a call, with the fields the dispatcher reads, each of the type
  its tool's schema declares and each possibly missing.
\<close>

record tool_args =
  username :: "string option"
  user_id :: "string option"
  userId :: "string option"
  cursor :: "string option"
  includeReplies :: "bool option"
  save_dir :: "string option"
  max_items :: "int option"
  query :: "string option"
  queryType :: "string option"
  tweet_ids :: "string list option"
  tweetId :: "string option"
  sinceTime :: "int option"
  untilTime :: "int option"
  pageSize :: "int option"
  user_name :: "string option"
  email :: "string option"
  password :: "string option"
  proxy :: "string option"
  totp_secret :: "string option"
  tweet_text :: "string option"
  reply_to_tweet_id :: "string option"
  attachment_url :: "string option"
  media_ids :: "string list option"

text \<open>The argument object \<^verbatim>\<open>{}\<close>.\<close>

definition no_args :: tool_args where
  "no_args = \<lparr>username = None, user_id = None, userId = None, cursor = None,
     includeReplies = None, save_dir = None, max_items = None, query = None, queryType = None,
     tweet_ids = None, tweetId = None, sinceTime = None, untilTime = None, pageSize = None,
     user_name = None, email = None, password = None, proxy = None, totp_secret = None,
     tweet_text = None, reply_to_tweet_id = None, attachment_url = None, media_ids = None\<rparr>"

text \<open>The \<^verbatim>\<open>switch\<close> of the \<^verbatim>\<open>CallToolRequest\<close> handler, inside its \<^verbatim>\<open>try\<close>.\<close>

definition dispatch ::
  "world \<Rightarrow> server \<Rightarrow> string \<Rightarrow> tool_args option \<Rightarrow> tool_text result \<times> server" where
  "dispatch w st name args =
     (case args of
        None \<Rightarrow> (Inl (McpError InvalidParams ''Missing arguments''), st)
      | Some a \<Rightarrow>
          if name = ''get_user_by_username'' then
            getUserByUsername w st (username a) (save_dir a) (max_items a)
          else if name = ''get_user_by_id'' then
            getUserById w st (user_id a) (save_dir a) (max_items a)
          else if name = ''get_user_tweets'' then
            getUserTweets w st (username a) (userId a) (cursor a) (includeReplies a)
              (save_dir a) (max_items a)
          else if name = ''search_tweets'' then
            searchTweets w st (query a) (queryType a) (cursor a) (save_dir a) (max_items a)
          else if name = ''get_tweet_by_id'' then
            getTweetById w st (tweet_ids a) (save_dir a) (max_items a)
          else if name = ''get_tweet_replies'' then
            getTweetReplies w st (tweetId a) (cursor a) (sinceTime a) (untilTime a)
              (save_dir a) (max_items a)
          else if name = ''get_user_followers'' then
            getUserFollowers w st (username a) (cursor a) (pageSize a) (save_dir a) (max_items a)
          else if name = ''get_user_following'' then
            getUserFollowing w st (username a) (cursor a) (pageSize a) (save_dir a) (max_items a)
          else if name = ''search_users'' then
            searchUsers w st (query a) (cursor a) (save_dir a) (max_items a)
          else if name = ''login_user'' then
            loginUser w st (user_name a) (email a) (password a) (proxy a) (totp_secret a)
          else if name = ''create_tweet'' then
            createTweet w st (tweet_text a) (proxy a) (reply_to_tweet_id a) (attachment_url a)
              (media_ids a)
          else (Inl (McpError MethodNotFound (''Unknown tool: '' @ name)), st))"

text \<open>
  The handler: a \<^verbatim>\<open>McpError\<close> passes, any other exception becomes an internal error.
\<close>

definition callTool ::
  "world \<Rightarrow> server \<Rightarrow> string \<Rightarrow> tool_args option \<Rightarrow> tool_text result \<times> server" where
  "callTool w st name args =
     (case dispatch w st name args of
        (Inl (McpError c m), st') \<Rightarrow> (Inl (McpError c m), st')
      | (Inl e, st') \<Rightarrow>
          (Inl (McpError InternalError (''TwitterAPI.io error: '' @ error_message e)), st')
      | (Inr t, st') \<Rightarrow> (Inr t, st'))"

section \<open>The cleaners in the words of the specification\<close>

text \<open>
  The specification describes a canonical field as chosen from an ordered list of
  candidate source values. \<open>first_truthy\<close> takes the first candidate that is truthy and
  \<open>first_defined\<close> the first that is neither \<^verbatim>\<open>null\<close> nor \<^verbatim>\<open>undefined\<close>; when no
  candidate qualifies, both answer with the last one.
\<close>

fun first_truthy :: "jsval list \<Rightarrow> jsval" where
  "first_truthy [] = JUndefined"
| "first_truthy [v] = v"
| "first_truthy (v # vs) = (if truthy v then v else first_truthy vs)"

fun first_defined :: "jsval list \<Rightarrow> jsval" where
  "first_defined [] = JUndefined"
| "first_defined [v] = v"
| "first_defined (v # vs) = (if nullish v then first_defined vs else v)"

text \<open>The canonical user of a raw user that is not absent, field by field.\<close>

definition canonical_user :: "jsval \<Rightarrow> jsval" where
  "canonical_user u = JObj
     [(''id'', js_get u ''id''),
      (''username'',
         first_truthy [js_get u ''userName'', js_get u ''screen_name'', js_get u ''username'']),
      (''name'', js_get u ''name''),
      (''description'', js_get u ''description''),
      (''verified'',
         first_truthy [js_get u ''isVerified'', js_get u ''verified'', js_get u ''isBlueVerified'']),
      (''followers'', first_defined [js_get u ''followers'', js_get u ''followers_count'']),
      (''following'', first_defined [js_get u ''following'', js_get u ''following_count'']),
      (''tweets'',
         first_defined [js_get u ''statusesCount'', js_get u ''statuses_count'',
                        js_get u ''tweet_count'']),
      (''location'', first_truthy [js_get u ''location'', JUndefined]),
      (''url'', first_truthy [js_get u ''url'', JUndefined]),
      (''created'', first_truthy [js_get u ''createdAt'', js_get u ''created_at''])]"

text \<open>The nested candidate of a tweet's counts: \<^verbatim>\<open>public_metrics.k\<close>, when there are metrics.\<close>

definition nested_metric :: "jsval \<Rightarrow> string \<Rightarrow> jsval" where
  "nested_metric t k =
     (if nullish (js_get t ''public_metrics'') then JUndefined
      else js_get (js_get t ''public_metrics'') k)"

definition canonical_tweet :: "jsval \<Rightarrow> jsval" where
  "canonical_tweet t = JObj
     [(''id'', js_get t ''id''),
      (''text'', js_get t ''text''),
      (''author'',
         (if truthy (js_get t ''author'') then canonical_user (js_get t ''author'')
          else JUndefined)),
      (''created'', first_truthy [js_get t ''createdAt'', js_get t ''created_at'']),
      (''retweets'', first_defined [js_get t ''retweetCount'', nested_metric t ''retweet_count'']),
      (''likes'', first_defined [js_get t ''likeCount'', nested_metric t ''like_count'']),
      (''replies'', first_defined [js_get t ''replyCount'', nested_metric t ''reply_count'']),
      (''quotes'', first_defined [js_get t ''quoteCount'', nested_metric t ''quote_count'']),
      (''views'', js_get t ''viewCount''),
      (''isReply'', js_get t ''isReply''),
      (''isRetweet'', js_get t ''isRetweet''),
      (''inReplyTo'', first_truthy [js_get t ''inReplyToId'', js_get t ''in_reply_to'']),
      (''conversationId'', js_get t ''conversationId''),
      (''lang'', js_get t ''lang'')]"


section \<open>Names and example environments used in the statements\<close>


text \<open>An object has a key, whatever the value.\<close>

fun has_field :: "jsval \<Rightarrow> string \<Rightarrow> bool" where
  "has_field (JObj kvs) k = (map_of kvs k \<noteq> None)"
| "has_field v k = False"

text \<open>The server when the process starts, with an API key configured and an empty disk.\<close>

definition fresh_server :: server where
  "fresh_server = \<lparr>apiKey = ''key'', loginCookie = JNull, requests = [], dirs = {},
     files = Map.empty\<rparr>"

text \<open>
  An environment whose upstream API gives every request the same outcome and whose disk
  accepts every directory and file.
\<close>

definition answering :: "http_outcome \<Rightarrow> world" where
  "answering out = \<lparr>upstream = (\<lambda>r. out), now_iso = ''2024-05-06T07:08:09.010Z'',
     path_join = (\<lambda>d f. d @ ''/'' @ f), mkdir_error = (\<lambda>d. None),
     write_error = (\<lambda>p. None)\<rparr>"

text \<open>The six tools whose operation slices its cleaned list.\<close>

definition truncating_tools :: "string list" where
  "truncating_tools =
     [''get_user_tweets'', ''search_tweets'', ''get_tweet_replies'', ''get_user_followers'',
      ''get_user_following'', ''search_users'']"

text \<open>
  The cleaned list of a list-returning tool, before any truncation: the list cleaner
  applied to the array the tool picks from the upstream answer.
\<close>

definition cleaned_list :: "string \<Rightarrow> jsval \<Rightarrow> jsval list result" where
  "cleaned_list name d =
     (if name = ''get_user_tweets'' \<or> name = ''search_tweets'' \<or> name = ''get_tweet_by_id'' then
        bind_r (js_or (js_or (js_prop d ''tweets'') (js_prop d ''data'')) (Inr (JArr [])))
          cleanTweetList
      else if name = ''get_tweet_replies'' then
        bind_r (js_or (js_or (js_or (js_prop d ''tweets'') (js_prop d ''replies''))
                         (js_prop d ''data'')) (Inr (JArr [])))
          cleanTweetList
      else if name = ''get_user_followers'' then
        bind_r (js_or (js_or (js_or (js_prop d ''users'') (js_prop d ''followers''))
                         (js_prop d ''data'')) (Inr (JArr [])))
          cleanUserList
      else if name = ''get_user_following'' then
        bind_r (js_or (js_or (js_or (js_prop d ''followings'') (js_prop d ''users''))
                         (js_prop d ''data'')) (Inr (JArr [])))
          cleanUserList
      else if name = ''search_users'' then
        bind_r (js_or (js_or (js_prop d ''users'') (js_prop d ''data'')) (Inr (JArr [])))
          cleanUserList
      else Inr [])"

text \<open>A raw tweet that carries only its id, and an upstream page of three such tweets.\<close>

definition tweet_with_id :: "string \<Rightarrow> jsval" where
  "tweet_with_id i = JObj [(''id'', JStr i)]"

definition page_of_three :: jsval where
  "page_of_three = JObj
     [(''tweets'', JArr [tweet_with_id ''1'', tweet_with_id ''2'', tweet_with_id ''3'']),
      (''has_next_page'', JBool True),
      (''next_cursor'', JStr ''abc'')]"

text \<open>The path \<^verbatim>\<open>saveData\<close> writes to.\<close>

definition save_path :: "world \<Rightarrow> string \<Rightarrow> string \<Rightarrow> string" where
  "save_path w dir toolName = path_join w dir (save_filename w toolName)"

text \<open>The nine read tools: every tool but \<^verbatim>\<open>login_user\<close> and \<^verbatim>\<open>create_tweet\<close>.\<close>

definition read_tools :: "string list" where
  "read_tools =
     [''get_user_by_username'', ''get_user_by_id'', ''get_user_tweets'', ''search_tweets'',
      ''get_tweet_by_id'', ''get_tweet_replies'', ''get_user_followers'', ''get_user_following'',
      ''search_users'']"



text \<open>
  A value holds no \<^verbatim>\<open>undefined\<close>, neither itself nor as a property value or an array
  element at any depth.
\<close>

fun undefined_free :: "jsval \<Rightarrow> bool"
  and undefined_free_items :: "jsval list \<Rightarrow> bool"
  and undefined_free_fields :: "(string \<times> jsval) list \<Rightarrow> bool" where
  "undefined_free JUndefined = False"
| "undefined_free JNull = True"
| "undefined_free (JBool b) = True"
| "undefined_free (JNum n) = True"
| "undefined_free (JStr s) = True"
| "undefined_free (JArr xs) = undefined_free_items xs"
| "undefined_free (JObj kvs) = undefined_free_fields kvs"
| "undefined_free_items [] = True"
| "undefined_free_items (x # xs) = (undefined_free x \<and> undefined_free_items xs)"
| "undefined_free_fields [] = True"
| "undefined_free_fields ((k, v) # kvs) = (undefined_free v \<and> undefined_free_fields kvs)"

text \<open>
  How every read operation ends, whatever the save directory: with an exception, or with
  \<^verbatim>\<open>formatResponse\<close> on its cleaned data and pagination option, in the server as the request
  left it. The save directory enters an operation only here.
\<close>

definition finish ::
  "world \<Rightarrow> string option \<Rightarrow> string \<Rightarrow> (js_error \<times> server) + (jsval \<times> jsval \<times> server)
     \<Rightarrow> tool_text result \<times> server" where
  "finish w saveDir toolName r =
     (case r of
        Inl (e, st) \<Rightarrow> (Inl e, st)
      | Inr (cleaned, pagination, st) \<Rightarrow>
          reply (formatResponse w st cleaned (spread_saveDir saveDir) (Some toolName) pagination))"

text \<open>The disk is as before when the operation reaches \<^verbatim>\<open>formatResponse\<close>.\<close>

definition same_disk :: "server \<Rightarrow> (js_error \<times> server) + (jsval \<times> jsval \<times> server) \<Rightarrow> bool" where
  "same_disk st r =
     (case r of
        Inl (e, st1) \<Rightarrow> True
      | Inr (cleaned, pagination, st1) \<Rightarrow> dirs st1 = dirs st \<and> files st1 = files st)"

section \<open>The cleaners refine the canonical shapes\<close>

lemma truthy_not_nullish: "truthy v \<Longrightarrow> \<not> nullish v"
  by (cases v) auto

lemma js_prop_truthy: "truthy v \<Longrightarrow> js_prop v k = Inr (js_get v k)"
  by (simp add: js_prop_def truthy_not_nullish)

lemma js_or2: "js_or (Inr a) (Inr b) = Inr (first_truthy [a, b])"
  by (simp add: js_or_def)

lemma js_coalesce2: "js_coalesce (Inr a) (Inr b) = Inr (first_defined [a, b])"
  by (simp add: js_coalesce_def)

lemma first_truthy_nest: "first_truthy [first_truthy [a, b], c] = first_truthy [a, b, c]"
  by simp

lemma first_defined_nest: "first_defined [first_defined [a, b], c] = first_defined [a, b, c]"
  by simp

lemma cleanUser_truthy: "truthy u \<Longrightarrow> cleanUser u = Inr (canonical_user u)"
  by (simp add: cleanUser_def canonical_user_def obj_r_def js_prop_truthy
        js_or2 js_coalesce2 first_truthy_nest first_defined_nest
        del: first_truthy.simps first_defined.simps)

lemma cleanUser_falsy: "\<not> truthy u \<Longrightarrow> cleanUser u = Inr JNull"
  by (simp add: cleanUser_def)

lemma cleanUser_value: "cleanUser u = Inr (if truthy u then canonical_user u else JNull)"
  by (simp add: cleanUser_truthy cleanUser_falsy)

lemma js_optchain_metrics:
  "js_optchain (Inr (js_get t ''public_metrics'')) k = Inr (nested_metric t k)"
  by (simp add: js_optchain_def nested_metric_def js_prop_def)

lemma author_value:
  "(if truthy a then cleanUser a else Inr JUndefined) =
   Inr (if truthy a then canonical_user a else JUndefined)"
  by (simp add: cleanUser_truthy)

lemma cleanTweet_truthy: "truthy t \<Longrightarrow> cleanTweet t = Inr (canonical_tweet t)"
  by (simp add: cleanTweet_def canonical_tweet_def obj_r_def js_prop_truthy
        js_or2 js_coalesce2 js_optchain_metrics author_value
        del: first_truthy.simps first_defined.simps)

lemma cleanTweet_falsy: "\<not> truthy t \<Longrightarrow> cleanTweet t = Inr JNull"
  by (simp add: cleanTweet_def)

lemma cleanTweet_value: "cleanTweet t = Inr (if truthy t then canonical_tweet t else JNull)"
  by (simp add: cleanTweet_truthy cleanTweet_falsy)

lemma canonical_user_truthy: "truthy (canonical_user u) \<and> canonical_user u \<noteq> JNull"
  unfolding canonical_user_def by simp

lemma canonical_tweet_truthy: "truthy (canonical_tweet t) \<and> canonical_tweet t \<noteq> JNull"
  unfolding canonical_tweet_def by simp

lemma map_r_total: "(\<And>x. f x = Inr (g x)) \<Longrightarrow> map_r f xs = Inr (map g xs)"
  by (induction xs) simp_all

lemma cleanUserList_array:
  "cleanUserList (JArr xs) =
     Inr (filter truthy (map (\<lambda>u. if truthy u then canonical_user u else JNull) xs))"
  by (simp add: cleanUserList_def map_r_total [of cleanUser, OF cleanUser_value])

lemma cleanTweetList_array:
  "cleanTweetList (JArr xs) =
     Inr (filter truthy (map (\<lambda>u. if truthy u then canonical_tweet u else JNull) xs))"
  by (simp add: cleanTweetList_def map_r_total [of cleanTweet, OF cleanTweet_value])

lemma cleanUserList_other: "(\<And>xs. x \<noteq> JArr xs) \<Longrightarrow> cleanUserList x = Inr []"
  by (cases x) (auto simp: cleanUserList_def)

lemma cleanTweetList_other: "(\<And>xs. x \<noteq> JArr xs) \<Longrightarrow> cleanTweetList x = Inr []"
  by (cases x) (auto simp: cleanTweetList_def)

lemma cleanUserList_total: "\<exists>ys. cleanUserList x = Inr ys"
  by (cases x) (simp_all add: cleanUserList_array, simp_all add: cleanUserList_def)

lemma cleanTweetList_total: "\<exists>ys. cleanTweetList x = Inr ys"
  by (cases x) (simp_all add: cleanTweetList_array, simp_all add: cleanTweetList_def)

lemma filter_truthy_users:
  "filter truthy (map (\<lambda>u. if truthy u then canonical_user u else JNull) xs) =
   filter (\<lambda>y. y \<noteq> JNull) (map (\<lambda>u. if truthy u then canonical_user u else JNull) xs)"
  by (induction xs) (simp_all add: canonical_user_truthy)

lemma filter_truthy_tweets:
  "filter truthy (map (\<lambda>u. if truthy u then canonical_tweet u else JNull) xs) =
   filter (\<lambda>y. y \<noteq> JNull) (map (\<lambda>u. if truthy u then canonical_tweet u else JNull) xs)"
  by (induction xs) (simp_all add: canonical_tweet_truthy)

lemma js_get_canonical_user:
  "js_get (canonical_user u) ''verified'' =
     first_truthy [js_get u ''isVerified'', js_get u ''verified'', js_get u ''isBlueVerified'']"
  "js_get (canonical_user u) ''followers'' =
     first_defined [js_get u ''followers'', js_get u ''followers_count'']"
  "js_get (canonical_user u) ''following'' =
     first_defined [js_get u ''following'', js_get u ''following_count'']"
  "js_get (canonical_user u) ''tweets'' =
     first_defined [js_get u ''statusesCount'', js_get u ''statuses_count'', js_get u ''tweet_count'']"
  unfolding canonical_user_def by (simp_all del: first_truthy.simps first_defined.simps)

lemma js_get_canonical_tweet:
  "js_get (canonical_tweet t) ''retweets'' =
     first_defined [js_get t ''retweetCount'', nested_metric t ''retweet_count'']"
  "js_get (canonical_tweet t) ''likes'' =
     first_defined [js_get t ''likeCount'', nested_metric t ''like_count'']"
  "js_get (canonical_tweet t) ''replies'' =
     first_defined [js_get t ''replyCount'', nested_metric t ''reply_count'']"
  "js_get (canonical_tweet t) ''quotes'' =
     first_defined [js_get t ''quoteCount'', nested_metric t ''quote_count'']"
  unfolding canonical_tweet_def by (simp_all del: first_truthy.simps first_defined.simps)

section \<open>Claims about the cleaners\<close>

text \<open>
  Claim C3, as amended. For every raw user that is not absent, the canonical
  \<^verbatim>\<open>verified\<close> flag is the first truthy value among the upstream flags \<^verbatim>\<open>isVerified\<close>,
  \<^verbatim>\<open>verified\<close> and \<^verbatim>\<open>isBlueVerified\<close>, tried in that order, and the value of
  \<^verbatim>\<open>isBlueVerified\<close> when none is truthy. The claim as written asks for the first non-null
  value, so that a \<^verbatim>\<open>false\<close> in an earlier flag would win over a \<^verbatim>\<open>true\<close> in a later one;
  the cleaner joins the flags with \<^verbatim>\<open>||\<close>, and the later \<^verbatim>\<open>true\<close> wins.
\<close>

theorem verified_is_first_truthy:
  "truthy u \<Longrightarrow>
   \<exists>c. cleanUser u = Inr c
     \<and> js_get c ''verified'' =
         first_truthy [js_get u ''isVerified'', js_get u ''verified'', js_get u ''isBlueVerified'']"
  by (simp add: cleanUser_truthy js_get_canonical_user(1))

theorem verified_is_first_truthy_witness:
  "truthy (JObj [(''isVerified'', JBool False), (''isBlueVerified'', JBool True)])
   \<and> (\<exists>c. cleanUser (JObj [(''isVerified'', JBool False), (''isBlueVerified'', JBool True)]) = Inr c
          \<and> js_get c ''verified'' = JBool True)"
proof -
  let ?u = "JObj [(''isVerified'', JBool False), (''isBlueVerified'', JBool True)]"
  have t: "truthy ?u" by simp
  from verified_is_first_truthy [OF t] obtain c where
    c: "cleanUser ?u = Inr c"
       "js_get c ''verified'' =
          first_truthy [js_get ?u ''isVerified'', js_get ?u ''verified'', js_get ?u ''isBlueVerified'']"
    by blast
  have "first_truthy [js_get ?u ''isVerified'', js_get ?u ''verified'', js_get ?u ''isBlueVerified'']
        = JBool True"
    by simp
  with c t show ?thesis by simp
qed

text \<open>
  The claim as written fails on the user \<^verbatim>\<open>{isVerified: false, isBlueVerified: true}\<close>: its
  first non-null flag is \<^verbatim>\<open>false\<close>, and the cleaned user is verified.
\<close>

theorem verified_first_non_null_counterexample:
  "cleanUser (JObj [(''isVerified'', JBool False), (''isBlueVerified'', JBool True)]) =
     Inr (JObj [(''id'', JUndefined), (''username'', JUndefined), (''name'', JUndefined),
                (''description'', JUndefined), (''verified'', JBool True),
                (''followers'', JUndefined), (''following'', JUndefined),
                (''tweets'', JUndefined), (''location'', JUndefined), (''url'', JUndefined),
                (''created'', JUndefined)])
   \<and> first_defined
        [js_get (JObj [(''isVerified'', JBool False), (''isBlueVerified'', JBool True)]) ''isVerified'',
         js_get (JObj [(''isVerified'', JBool False), (''isBlueVerified'', JBool True)]) ''verified'',
         js_get (JObj [(''isVerified'', JBool False), (''isBlueVerified'', JBool True)]) ''isBlueVerified'']
       = JBool False"
  by (simp add: cleanUser_truthy canonical_user_def)

text \<open>
  Claim C4. For every raw user or tweet that is not absent, each count of the canonical
  shape (followers, following and tweets of a user; retweets, likes, replies and quotes of
  a tweet) is the first candidate that is neither \<^verbatim>\<open>null\<close> nor \<^verbatim>\<open>undefined\<close>, the flattened
  field before the fallback (for a tweet the nested \<^verbatim>\<open>public_metrics\<close> path); in
  particular a \<^verbatim>\<open>0\<close> in the flattened field is kept and the fallback is not consulted.
\<close>

theorem counts_take_first_defined:
  "truthy x \<Longrightarrow>
   (\<exists>c. cleanUser x = Inr c
      \<and> js_get c ''followers'' = first_defined [js_get x ''followers'', js_get x ''followers_count'']
      \<and> js_get c ''following'' = first_defined [js_get x ''following'', js_get x ''following_count'']
      \<and> js_get c ''tweets'' =
          first_defined [js_get x ''statusesCount'', js_get x ''statuses_count'', js_get x ''tweet_count'']
      \<and> (js_get x ''followers'' = JNum 0 \<longrightarrow> js_get c ''followers'' = JNum 0)
      \<and> (js_get x ''following'' = JNum 0 \<longrightarrow> js_get c ''following'' = JNum 0)
      \<and> (js_get x ''statusesCount'' = JNum 0 \<longrightarrow> js_get c ''tweets'' = JNum 0))
   \<and> (\<exists>c. cleanTweet x = Inr c
      \<and> js_get c ''retweets'' = first_defined [js_get x ''retweetCount'', nested_metric x ''retweet_count'']
      \<and> js_get c ''likes'' = first_defined [js_get x ''likeCount'', nested_metric x ''like_count'']
      \<and> js_get c ''replies'' = first_defined [js_get x ''replyCount'', nested_metric x ''reply_count'']
      \<and> js_get c ''quotes'' = first_defined [js_get x ''quoteCount'', nested_metric x ''quote_count'']
      \<and> (js_get x ''retweetCount'' = JNum 0 \<longrightarrow> js_get c ''retweets'' = JNum 0)
      \<and> (js_get x ''likeCount'' = JNum 0 \<longrightarrow> js_get c ''likes'' = JNum 0)
      \<and> (js_get x ''replyCount'' = JNum 0 \<longrightarrow> js_get c ''replies'' = JNum 0)
      \<and> (js_get x ''quoteCount'' = JNum 0 \<longrightarrow> js_get c ''quotes'' = JNum 0))"
proof -
  assume t: "truthy x"
  have user: "\<exists>c. cleanUser x = Inr c
      \<and> js_get c ''followers'' = first_defined [js_get x ''followers'', js_get x ''followers_count'']
      \<and> js_get c ''following'' = first_defined [js_get x ''following'', js_get x ''following_count'']
      \<and> js_get c ''tweets'' =
          first_defined [js_get x ''statusesCount'', js_get x ''statuses_count'', js_get x ''tweet_count'']
      \<and> (js_get x ''followers'' = JNum 0 \<longrightarrow> js_get c ''followers'' = JNum 0)
      \<and> (js_get x ''following'' = JNum 0 \<longrightarrow> js_get c ''following'' = JNum 0)
      \<and> (js_get x ''statusesCount'' = JNum 0 \<longrightarrow> js_get c ''tweets'' = JNum 0)"
    using t by (simp add: cleanUser_truthy js_get_canonical_user)
  have tweet: "\<exists>c. cleanTweet x = Inr c
      \<and> js_get c ''retweets'' = first_defined [js_get x ''retweetCount'', nested_metric x ''retweet_count'']
      \<and> js_get c ''likes'' = first_defined [js_get x ''likeCount'', nested_metric x ''like_count'']
      \<and> js_get c ''replies'' = first_defined [js_get x ''replyCount'', nested_metric x ''reply_count'']
      \<and> js_get c ''quotes'' = first_defined [js_get x ''quoteCount'', nested_metric x ''quote_count'']
      \<and> (js_get x ''retweetCount'' = JNum 0 \<longrightarrow> js_get c ''retweets'' = JNum 0)
      \<and> (js_get x ''likeCount'' = JNum 0 \<longrightarrow> js_get c ''likes'' = JNum 0)
      \<and> (js_get x ''replyCount'' = JNum 0 \<longrightarrow> js_get c ''replies'' = JNum 0)
      \<and> (js_get x ''quoteCount'' = JNum 0 \<longrightarrow> js_get c ''quotes'' = JNum 0)"
    using t by (simp add: cleanTweet_truthy js_get_canonical_tweet)
  from user tweet show ?thesis ..
qed

theorem counts_take_first_defined_witness:
  "truthy (JObj [(''followers'', JNum 0), (''followers_count'', JNum 5), (''retweetCount'', JNum 0),
                 (''public_metrics'', JObj [(''retweet_count'', JNum 9), (''like_count'', JNum 4)])])
   \<and> (\<exists>c. cleanUser (JObj [(''followers'', JNum 0), (''followers_count'', JNum 5),
                 (''retweetCount'', JNum 0),
                 (''public_metrics'', JObj [(''retweet_count'', JNum 9), (''like_count'', JNum 4)])]) = Inr c
          \<and> js_get c ''followers'' = JNum 0)
   \<and> (\<exists>c. cleanTweet (JObj [(''followers'', JNum 0), (''followers_count'', JNum 5),
                 (''retweetCount'', JNum 0),
                 (''public_metrics'', JObj [(''retweet_count'', JNum 9), (''like_count'', JNum 4)])]) = Inr c
          \<and> js_get c ''retweets'' = JNum 0 \<and> js_get c ''likes'' = JNum 4)"
proof -
  let ?x = "JObj [(''followers'', JNum 0), (''followers_count'', JNum 5), (''retweetCount'', JNum 0),
                 (''public_metrics'', JObj [(''retweet_count'', JNum 9), (''like_count'', JNum 4)])]"
  have t: "truthy ?x" by simp
  have f: "first_defined [js_get ?x ''followers'', js_get ?x ''followers_count''] = JNum 0"
    by simp
  have r: "first_defined [js_get ?x ''retweetCount'', nested_metric ?x ''retweet_count''] = JNum 0"
    by simp
  have l: "first_defined [js_get ?x ''likeCount'', nested_metric ?x ''like_count''] = JNum 4"
    by (simp add: nested_metric_def)
  from counts_take_first_defined [OF t] obtain cu ct where
    "cleanUser ?x = Inr cu"
    "js_get cu ''followers'' = first_defined [js_get ?x ''followers'', js_get ?x ''followers_count'']"
    "cleanTweet ?x = Inr ct"
    "js_get ct ''retweets'' = first_defined [js_get ?x ''retweetCount'', nested_metric ?x ''retweet_count'']"
    "js_get ct ''likes'' = first_defined [js_get ?x ''likeCount'', nested_metric ?x ''like_count'']"
    by blast
  with t f r l show ?thesis by simp
qed

text \<open>
  Claim C5. The cleaners never throw: on every value \<^verbatim>\<open>cleanUser\<close> and \<^verbatim>\<open>cleanTweet\<close>
  return a value, and \<^verbatim>\<open>null\<close> on \<^verbatim>\<open>null\<close> and \<^verbatim>\<open>undefined\<close>; on every value that is not an
  array \<^verbatim>\<open>cleanUserList\<close> and \<^verbatim>\<open>cleanTweetList\<close> return the empty list; on an array they
  return the element-wise results of the scalar cleaner without those that are \<^verbatim>\<open>null\<close>.
\<close>

theorem normalizers_total:
  "(\<exists>v. cleanUser x = Inr v) \<and> (\<exists>v. cleanTweet x = Inr v)
   \<and> cleanUser JNull = Inr JNull \<and> cleanUser JUndefined = Inr JNull
   \<and> cleanTweet JNull = Inr JNull \<and> cleanTweet JUndefined = Inr JNull
   \<and> ((\<forall>xs. x \<noteq> JArr xs) \<longrightarrow> cleanUserList x = Inr [] \<and> cleanTweetList x = Inr [])
   \<and> (\<exists>ys. map cleanUser xs = map Inr ys
          \<and> cleanUserList (JArr xs) = Inr (filter (\<lambda>y. y \<noteq> JNull) ys))
   \<and> (\<exists>ys. map cleanTweet xs = map Inr ys
          \<and> cleanTweetList (JArr xs) = Inr (filter (\<lambda>y. y \<noteq> JNull) ys))"
proof -
  have total: "(\<exists>v. cleanUser x = Inr v) \<and> (\<exists>v. cleanTweet x = Inr v)"
    by (simp add: cleanUser_value cleanTweet_value)
  have absent: "cleanUser JNull = Inr JNull \<and> cleanUser JUndefined = Inr JNull
      \<and> cleanTweet JNull = Inr JNull \<and> cleanTweet JUndefined = Inr JNull"
    by (simp add: cleanUser_falsy cleanTweet_falsy)
  have other: "(\<forall>xs. x \<noteq> JArr xs) \<longrightarrow> cleanUserList x = Inr [] \<and> cleanTweetList x = Inr []"
    by (simp add: cleanUserList_other cleanTweetList_other)
  let ?us = "map (\<lambda>u. if truthy u then canonical_user u else JNull) xs"
  let ?ts = "map (\<lambda>u. if truthy u then canonical_tweet u else JNull) xs"
  have "map cleanUser xs = map Inr ?us"
    by (simp add: cleanUser_value)
  moreover have "cleanUserList (JArr xs) = Inr (filter (\<lambda>y. y \<noteq> JNull) ?us)"
    by (simp only: cleanUserList_array filter_truthy_users)
  ultimately have users: "\<exists>ys. map cleanUser xs = map Inr ys
      \<and> cleanUserList (JArr xs) = Inr (filter (\<lambda>y. y \<noteq> JNull) ys)"
    by blast
  have "map cleanTweet xs = map Inr ?ts"
    by (simp add: cleanTweet_value)
  moreover have "cleanTweetList (JArr xs) = Inr (filter (\<lambda>y. y \<noteq> JNull) ?ts)"
    by (simp only: cleanTweetList_array filter_truthy_tweets)
  ultimately have tweets: "\<exists>ys. map cleanTweet xs = map Inr ys
      \<and> cleanTweetList (JArr xs) = Inr (filter (\<lambda>y. y \<noteq> JNull) ys)"
    by blast
  from total absent other users tweets show ?thesis
    by (elim conjE, intro conjI) assumption+
qed

theorem normalizers_total_witness:
  "cleanUserList (JNum 5) = Inr [] \<and> cleanTweetList (JNum 5) = Inr []
   \<and> (\<exists>ys. map cleanUser [JNull, JObj [(''id'', JStr ''7'')], JNum 0] = map Inr ys
          \<and> cleanUserList (JArr [JNull, JObj [(''id'', JStr ''7'')], JNum 0]) =
              Inr (filter (\<lambda>y. y \<noteq> JNull) ys))"
proof -
  have "\<forall>xs. JNum 5 \<noteq> JArr xs" by simp
  with normalizers_total [of "JNum 5" "[JNull, JObj [(''id'', JStr ''7'')], JNum 0]"]
  show ?thesis
    by (elim conjE impE) simp_all
qed

section \<open>Requests, session state and the dispatcher\<close>

lemma send_state: "snd (send w st req) = st\<lparr>requests := requests st @ [req]\<rparr>"
  by (simp add: send_def Let_def split: http_outcome.splits)

lemma send_result:
  "fst (send w st req) =
     (case upstream w req of
        HttpOk d \<Rightarrow> Inr d
      | AxiosError response message \<Rightarrow> Inl (Error (api_error_message response message))
      | OtherError e \<Rightarrow> Inl e)"
  by (simp add: send_def Let_def split: http_outcome.splits)

lemma callTool_create_tweet:
  "callTool w st ''create_tweet'' (Some a) =
     (case createTweet w st (tweet_text a) (proxy a) (reply_to_tweet_id a) (attachment_url a)
             (media_ids a) of
        (Inl (McpError c m), st') \<Rightarrow> (Inl (McpError c m), st')
      | (Inl e, st') \<Rightarrow>
          (Inl (McpError InternalError (''TwitterAPI.io error: '' @ error_message e)), st')
      | (Inr t, st') \<Rightarrow> (Inr t, st'))"
  by (simp add: callTool_def dispatch_def)

text \<open>
  Claim C6. When no login has stored a session cookie (the cookie is still \<^verbatim>\<open>null\<close>),
  \<^verbatim>\<open>createTweet\<close> throws \<^verbatim>\<open>Must login first before creating tweets\<close> and leaves the
  server as it was: no request is issued and the session state is unchanged. Through the
  handler the caller gets an internal error carrying that message.
\<close>

theorem create_tweet_requires_login:
  "loginCookie st = JNull \<Longrightarrow>
     createTweet w st t p r u m = (Inl (Error ''Must login first before creating tweets''), st)
   \<and> requests (snd (createTweet w st t p r u m)) = requests st
   \<and> callTool w st ''create_tweet'' (Some a) =
       (Inl (McpError InternalError
               ''TwitterAPI.io error: Must login first before creating tweets''), st)"
proof -
  assume none: "loginCookie st = JNull"
  have op: "createTweet w st t p r u m =
      (Inl (Error ''Must login first before creating tweets''), st)" for t p r u m
    using none by (simp add: createTweet_def)
  have "callTool w st ''create_tweet'' (Some a) =
       (Inl (McpError InternalError
               ''TwitterAPI.io error: Must login first before creating tweets''), st)"
    by (simp add: callTool_create_tweet op)
  with op show ?thesis by simp
qed

theorem create_tweet_requires_login_witness:
  "loginCookie fresh_server = JNull
   \<and> callTool (answering (HttpOk JNull)) fresh_server ''create_tweet''
        (Some (no_args\<lparr>tweet_text := Some ''hello'', proxy := Some ''http://p:1''\<rparr>)) =
       (Inl (McpError InternalError
               ''TwitterAPI.io error: Must login first before creating tweets''), fresh_server)
   \<and> requests fresh_server = []"
proof -
  have c: "loginCookie fresh_server = JNull"
    by (simp add: fresh_server_def)
  from create_tweet_requires_login [OF c] c show ?thesis
    by (simp add: fresh_server_def)
qed

lemma js_get_nullish: "nullish d \<Longrightarrow> js_get d k = JUndefined"
  by (cases d) auto

lemma makePostRequest_cases:
  "makePostRequest w st ep body =
     (case upstream w \<lparr>req_method = POST, req_endpoint = ep, req_payload = body,
                        req_headers = auth_headers st\<rparr> of
        HttpOk d \<Rightarrow> Inr d
      | AxiosError response message \<Rightarrow> Inl (Error (api_error_message response message))
      | OtherError e \<Rightarrow> Inl e,
      st\<lparr>requests := requests st @ [\<lparr>req_method = POST, req_endpoint = ep, req_payload = body,
                        req_headers = auth_headers st\<rparr>]\<rparr>)"
  by (simp add: makePostRequest_def send_def Let_def split: http_outcome.splits)

lemma loginUser_failed_request:
  "makePostRequest w st ''/user_login_v2'' (loginPayload u e p x t) = (Inl err, st1) \<Longrightarrow>
   loginUser w st u e p x t = (Inr (login_failure err), st1)"
  by (simp add: loginUser_def)

lemma loginUser_nullish_answer:
  "makePostRequest w st ''/user_login_v2'' (loginPayload u e p x t) = (Inr d, st1) \<Longrightarrow>
   nullish d \<Longrightarrow>
   loginUser w st u e p x t = (Inr (login_failure (TypeError (cannot_read d ''login_cookie''))), st1)"
  by (simp add: loginUser_def js_prop_def)

lemma loginUser_returns: "\<exists>body st'. loginUser w st u e p x t = (Inr (JsonText body), st')"
proof (cases "makePostRequest w st ''/user_login_v2'' (loginPayload u e p x t)")
  case (Pair r st1)
  show ?thesis
  proof (cases r)
    case (Inl err)
    with Pair show ?thesis
      by (simp add: loginUser_failed_request login_failure_def)
  next
    case (Inr d)
    with Pair show ?thesis
      by (cases "nullish d") (simp_all add: loginUser_def js_prop_def login_failure_def)
  qed
qed

lemma callTool_login_user:
  "callTool w st ''login_user'' (Some a) =
     (case loginUser w st (user_name a) (email a) (password a) (proxy a) (totp_secret a) of
        (Inl (McpError c m), st') \<Rightarrow> (Inl (McpError c m), st')
      | (Inl e, st') \<Rightarrow>
          (Inl (McpError InternalError (''TwitterAPI.io error: '' @ error_message e)), st')
      | (Inr t, st') \<Rightarrow> (Inr t, st'))"
  by (simp add: callTool_def dispatch_def)

text \<open>
  Claim C7. \<^verbatim>\<open>loginUser\<close> always returns a JSON result, directly and through the handler,
  so no exception of it reaches the dispatch boundary. When the request fails (an upstream
  HTTP error or any other error of the request), and when the answer cannot be read
  (\<^verbatim>\<open>null\<close> or \<^verbatim>\<open>undefined\<close>), the body is \<^verbatim>\<open>{success: false, error: message}\<close>.
\<close>

theorem login_never_throws:
  "(\<exists>body st'. loginUser w st u e p x t = (Inr (JsonText body), st'))
   \<and> (\<exists>body st'. callTool w st ''login_user'' (Some a) = (Inr (JsonText body), st'))
   \<and> (\<forall>err st1.
        makePostRequest w st ''/user_login_v2'' (loginPayload u e p x t) = (Inl err, st1) \<longrightarrow>
        loginUser w st u e p x t =
          (Inr (JsonText (JObj [(''success'', JBool False),
                                (''error'', JStr (error_message err))])), st1))
   \<and> (\<forall>d st1.
        makePostRequest w st ''/user_login_v2'' (loginPayload u e p x t) = (Inr d, st1) \<longrightarrow>
        nullish d \<longrightarrow>
        loginUser w st u e p x t =
          (Inr (JsonText (JObj [(''success'', JBool False),
                                (''error'', JStr (cannot_read d ''login_cookie''))])), st1))"
proof -
  have direct: "\<exists>body st'. loginUser w st u e p x t = (Inr (JsonText body), st')"
    by (rule loginUser_returns)
  obtain body st' where
    "loginUser w st (user_name a) (email a) (password a) (proxy a) (totp_secret a) =
       (Inr (JsonText body), st')"
    using loginUser_returns by blast
  then have "callTool w st ''login_user'' (Some a) = (Inr (JsonText body), st')"
    by (simp add: callTool_login_user)
  then have through: "\<exists>body st'. callTool w st ''login_user'' (Some a) = (Inr (JsonText body), st')"
    by blast
  have failed: "\<forall>err st1.
        makePostRequest w st ''/user_login_v2'' (loginPayload u e p x t) = (Inl err, st1) \<longrightarrow>
        loginUser w st u e p x t =
          (Inr (JsonText (JObj [(''success'', JBool False),
                                (''error'', JStr (error_message err))])), st1)"
    by (simp add: loginUser_failed_request login_failure_def)
  have nullish_answer: "\<forall>d st1.
        makePostRequest w st ''/user_login_v2'' (loginPayload u e p x t) = (Inr d, st1) \<longrightarrow>
        nullish d \<longrightarrow>
        loginUser w st u e p x t =
          (Inr (JsonText (JObj [(''success'', JBool False),
                                (''error'', JStr (cannot_read d ''login_cookie''))])), st1)"
    by (simp add: loginUser_nullish_answer login_failure_def)
  from direct through failed nullish_answer show ?thesis
    by (intro conjI)
qed

theorem login_never_throws_witness:
  "loginUser (answering (AxiosError JUndefined ''timeout of 30000ms exceeded'')) fresh_server
      (Some ''alice'') (Some ''a@example.org'') (Some ''pw'') (Some ''http://p:1'') None =
     (Inr (JsonText (JObj [(''success'', JBool False),
                           (''error'', JStr ''TwitterAPI.io API error (500): timeout of 30000ms exceeded'')])),
      fresh_server\<lparr>requests :=
        [\<lparr>req_method = POST, req_endpoint = ''/user_login_v2'',
          req_payload = JObj [(''user_name'', JStr ''alice''), (''email'', JStr ''a@example.org''),
                              (''password'', JStr ''pw''), (''proxy'', JStr ''http://p:1'')],
          req_headers = JObj [(''x-api-key'', JStr ''key'')]\<rparr>]\<rparr>)"
proof -
  let ?w = "answering (AxiosError JUndefined ''timeout of 30000ms exceeded'')"
  let ?st1 = "fresh_server\<lparr>requests :=
        [\<lparr>req_method = POST, req_endpoint = ''/user_login_v2'',
          req_payload = JObj [(''user_name'', JStr ''alice''), (''email'', JStr ''a@example.org''),
                              (''password'', JStr ''pw''), (''proxy'', JStr ''http://p:1'')],
          req_headers = JObj [(''x-api-key'', JStr ''key'')]\<rparr>]\<rparr>"
  have msg: "api_error_message JUndefined ''timeout of 30000ms exceeded'' =
      ''TwitterAPI.io API error (500): timeout of 30000ms exceeded''"
    by (simp add: api_error_message_def dec_int_def digit_of_def)
  have post: "makePostRequest ?w fresh_server ''/user_login_v2''
      (loginPayload (Some ''alice'') (Some ''a@example.org'') (Some ''pw'') (Some ''http://p:1'') None) =
      (Inl (Error ''TwitterAPI.io API error (500): timeout of 30000ms exceeded''), ?st1)"
    by (simp add: makePostRequest_cases answering_def msg loginPayload_def auth_headers_def
          fresh_server_def)
  note failed = login_never_throws [of ?w fresh_server "Some ''alice''" "Some ''a@example.org''"
      "Some ''pw''" "Some ''http://p:1''" None no_args,
      THEN conjunct2, THEN conjunct2, THEN conjunct1, rule_format, OF post]
  from failed show ?thesis
    by simp
qed

text \<open>
  Claim C10, as amended. \<^verbatim>\<open>loginUser\<close> overwrites the session cookie exactly when the
  request succeeds and the \<^verbatim>\<open>login_cookie\<close> of the answer is truthy, whatever the
  \<^verbatim>\<open>status\<close> of the answer; otherwise the cookie stays. The claim as written asks only
  that the answer contain a \<^verbatim>\<open>login_cookie\<close> field.
\<close>

theorem login_sets_cookie_when_truthy:
  "loginCookie (snd (loginUser w st u e p x t)) =
     (case upstream w \<lparr>req_method = POST, req_endpoint = ''/user_login_v2'',
                        req_payload = loginPayload u e p x t, req_headers = auth_headers st\<rparr> of
        HttpOk d \<Rightarrow>
          if truthy (js_get d ''login_cookie'') then js_get d ''login_cookie'' else loginCookie st
      | AxiosError response message \<Rightarrow> loginCookie st
      | OtherError err \<Rightarrow> loginCookie st)"
  by (simp add: loginUser_def makePostRequest_cases js_prop_def js_get_nullish
        split: http_outcome.splits)

lemma answering_sel:
  "upstream (answering out) r = out"
  "now_iso (answering out) = ''2024-05-06T07:08:09.010Z''"
  "path_join (answering out) d f = d @ ''/'' @ f"
  "mkdir_error (answering out) d = None"
  "write_error (answering out) p = None"
  by (simp_all add: answering_def)

text \<open>
  A login whose result reports \<^verbatim>\<open>success: false\<close> sets the cookie that the next
  \<^verbatim>\<open>createTweet\<close> sends.
\<close>

theorem login_sets_cookie_when_truthy_witness:
  "fst (loginUser (answering (HttpOk (JObj [(''status'', JStr ''error''), (''login_cookie'', JStr ''abc'')])))
          fresh_server (Some ''alice'') (Some ''a@example.org'') (Some ''pw'') (Some ''http://p:1'') None) =
     Inr (JsonText (JObj [(''success'', JBool False), (''message'', JStr ''Login successful''),
                          (''login_cookie'', JStr ''abc'')]))
   \<and> loginCookie (snd (loginUser
          (answering (HttpOk (JObj [(''status'', JStr ''error''), (''login_cookie'', JStr ''abc'')])))
          fresh_server (Some ''alice'') (Some ''a@example.org'') (Some ''pw'') (Some ''http://p:1'') None)) =
       JStr ''abc''
   \<and> req_payload (last (requests (snd (createTweet
          (answering (HttpOk (JObj [(''status'', JStr ''error''), (''login_cookie'', JStr ''abc'')])))
          (snd (loginUser
             (answering (HttpOk (JObj [(''status'', JStr ''error''), (''login_cookie'', JStr ''abc'')])))
             fresh_server (Some ''alice'') (Some ''a@example.org'') (Some ''pw'') (Some ''http://p:1'') None))
          (Some ''hi'') (Some ''http://p:1'') None None None)))) =
       JObj [(''login_cookies'', JStr ''abc''), (''tweet_text'', JStr ''hi''),
             (''proxy'', JStr ''http://p:1'')]"
proof -
  let ?w = "answering (HttpOk (JObj [(''status'', JStr ''error''), (''login_cookie'', JStr ''abc'')]))"
  let ?login = "loginUser ?w fresh_server (Some ''alice'') (Some ''a@example.org'') (Some ''pw'')
                  (Some ''http://p:1'') None"
  have body: "fst ?login =
     Inr (JsonText (JObj [(''success'', JBool False), (''message'', JStr ''Login successful''),
                          (''login_cookie'', JStr ''abc'')]))"
    by (simp add: loginUser_def makePostRequest_cases answering_def js_prop_def)
  have cookie: "loginCookie (snd ?login) = JStr ''abc''"
    using login_sets_cookie_when_truthy [of ?w fresh_server "Some ''alice''" "Some ''a@example.org''"
      "Some ''pw''" "Some ''http://p:1''" None]
    by (simp add: answering_def)
  have "req_payload (last (requests (snd (createTweet ?w (snd ?login)
          (Some ''hi'') (Some ''http://p:1'') None None None)))) =
       JObj [(''login_cookies'', JStr ''abc''), (''tweet_text'', JStr ''hi''),
             (''proxy'', JStr ''http://p:1'')]"
    by (simp add: createTweet_def cookie makePostRequest_cases Let_def answering_sel)
  with body cookie show ?thesis by simp
qed

text \<open>
  The claim as written fails on an answer whose \<^verbatim>\<open>login_cookie\<close> is the empty string: the
  field is there, and the cookie of an earlier login stays.
\<close>

theorem login_cookie_field_counterexample:
  "has_field (JObj [(''status'', JStr ''error''), (''msg'', JStr ''Authentication error''),
                    (''login_cookie'', JStr '''')]) ''login_cookie''
   \<and> upstream (answering (HttpOk (JObj [(''status'', JStr ''error''),
          (''msg'', JStr ''Authentication error''), (''login_cookie'', JStr '''')])))
        \<lparr>req_method = POST, req_endpoint = ''/user_login_v2'',
          req_payload = loginPayload (Some ''alice'') (Some ''a@example.org'') (Some ''pw'')
                          (Some ''http://p:1'') None,
          req_headers = auth_headers (fresh_server\<lparr>loginCookie := JStr ''old''\<rparr>)\<rparr> =
       HttpOk (JObj [(''status'', JStr ''error''), (''msg'', JStr ''Authentication error''),
                     (''login_cookie'', JStr '''')])
   \<and> loginCookie (snd (loginUser
        (answering (HttpOk (JObj [(''status'', JStr ''error''),
           (''msg'', JStr ''Authentication error''), (''login_cookie'', JStr '''')])))
        (fresh_server\<lparr>loginCookie := JStr ''old''\<rparr>)
        (Some ''alice'') (Some ''a@example.org'') (Some ''pw'') (Some ''http://p:1'') None)) =
       JStr ''old''"
  by (simp add: loginUser_def makePostRequest_cases answering_def js_prop_def)

lemma saveData_requests: "requests (snd (saveData w st d dir tn)) = requests st"
  by (simp add: saveData_def Let_def split: option.splits sum.splits)

lemma formatResponse_state:
  "snd (formatResponse w st c sd tn pg) =
     (case sd of
        None \<Rightarrow> st
      | Some dir \<Rightarrow>
          (case tn of
             None \<Rightarrow> st
           | Some tool \<Rightarrow>
               if dir \<noteq> [] \<and> tool \<noteq> [] then snd (saveData w st (envelope c pg) dir tool)
               else st))"
  by (simp add: formatResponse_def Let_def split: prod.splits option.splits)

lemma formatResponse_requests: "requests (snd (formatResponse w st c sd tn pg)) = requests st"
  by (simp add: formatResponse_state saveData_requests split: option.splits)

lemma reply_snd: "snd (reply r) = snd r"
  by (simp add: reply_def split: prod.splits)

lemma reply_fst: "fst (reply r) = Inr (fst r)"
  by (simp add: reply_def split: prod.splits)

lemma makeRequest_cases:
  "makeRequest w st ep params =
     (case upstream w \<lparr>req_method = GET, req_endpoint = ep, req_payload = params,
                        req_headers = auth_headers st\<rparr> of
        HttpOk d \<Rightarrow> Inr d
      | AxiosError response message \<Rightarrow> Inl (Error (api_error_message response message))
      | OtherError e \<Rightarrow> Inl e,
      st\<lparr>requests := requests st @ [\<lparr>req_method = GET, req_endpoint = ep, req_payload = params,
                        req_headers = auth_headers st\<rparr>]\<rparr>)"
  by (simp add: makeRequest_def send_def Let_def split: http_outcome.splits)























section \<open>Truncation\<close>

lemma formatResponse_text:
  "\<exists>note. fst (formatResponse w st c sd tn pg) = ToonText (envelope c pg) note"
  by (simp add: formatResponse_def Let_def split: prod.splits option.splits)

lemma envelope_data: "js_get (envelope c pg) ''data'' = c"
  by (simp add: envelope_def)

lemma reply_formatResponse:
  "reply (formatResponse w st1 c sd tn pg) = (Inr (ToonText env note), st') \<Longrightarrow>
   js_get env ''data'' = c \<and> requests st' = requests st1"
proof -
  assume r: "reply (formatResponse w st1 c sd tn pg) = (Inr (ToonText env note), st')"
  obtain n where n: "fst (formatResponse w st1 c sd tn pg) = ToonText (envelope c pg) n"
    using formatResponse_text by blast
  from r have "fst (reply (formatResponse w st1 c sd tn pg)) = Inr (ToonText env note)"
    and s: "snd (reply (formatResponse w st1 c sd tn pg)) = st'"
    by simp_all
  then have "env = envelope c pg"
    by (simp add: reply_fst n)
  moreover from s have "requests st' = requests st1"
    using formatResponse_requests [of w st1 c sd tn pg] by (simp add: reply_snd)
  ultimately show ?thesis
    by (simp add: envelope_data)
qed

lemma sliced_tail:
  "(case bind_r sel (\<lambda>raw. bind_r (cl raw) (\<lambda>xs. bind_r (pagination_of d)
            (\<lambda>p. Inr (slice0 xs n, p)))) of
      Inl e \<Rightarrow> (Inl e, st1)
    | Inr (cleaned, p) \<Rightarrow> reply (formatResponse w st1 (JArr cleaned) sd tn p)) =
   (Inr (ToonText env note), st') \<Longrightarrow>
   \<exists>xs. bind_r sel cl = Inr xs \<and> js_get env ''data'' = JArr (slice0 xs n)
      \<and> requests st' = requests st1"
  by (auto simp: bind_r_def split: sum.splits dest: reply_formatResponse)

lemma list_op_envelope:
  assumes "(case makeRequest w st ep params of
              (Inl e, st1) \<Rightarrow> (Inl e, st1)
            | (Inr d, st1) \<Rightarrow>
                (case bind_r (sel d) (\<lambda>raw. bind_r (cl raw) (\<lambda>xs. bind_r (pagination_of d)
                        (\<lambda>p. Inr (slice0 xs n, p)))) of
                   Inl e \<Rightarrow> (Inl e, st1)
                 | Inr (cleaned, p) \<Rightarrow> reply (formatResponse w st1 (JArr cleaned) sd tn p))) =
           (Inr (ToonText env note), st')"
  shows "\<exists>d xs. upstream w (last (requests st')) = HttpOk d \<and> bind_r (sel d) cl = Inr xs
           \<and> js_get env ''data'' = JArr (slice0 xs n)"
proof -
  let ?req = "\<lparr>req_method = GET, req_endpoint = ep, req_payload = params,
               req_headers = auth_headers st\<rparr>"
  let ?st1 = "st\<lparr>requests := requests st @ [?req]\<rparr>"
  show ?thesis
  proof (cases "upstream w ?req")
    case (HttpOk d)
    with assms have "(case bind_r (sel d) (\<lambda>raw. bind_r (cl raw) (\<lambda>xs. bind_r (pagination_of d)
                        (\<lambda>p. Inr (slice0 xs n, p)))) of
                   Inl e \<Rightarrow> (Inl e, ?st1)
                 | Inr (cleaned, p) \<Rightarrow> reply (formatResponse w ?st1 (JArr cleaned) sd tn p)) =
           (Inr (ToonText env note), st')"
      by (simp add: makeRequest_cases)
    from sliced_tail [OF this] obtain xs where
      "bind_r (sel d) cl = Inr xs" "js_get env ''data'' = JArr (slice0 xs n)"
      "requests st' = requests ?st1"
      by blast
    with HttpOk show ?thesis by simp
  next
    case (AxiosError response message)
    with assms show ?thesis by (simp add: makeRequest_cases)
  next
    case (OtherError e)
    with assms show ?thesis by (simp add: makeRequest_cases)
  qed
qed

lemma searchTweets_envelope:
  "searchTweets w st q qt c sd mi = (Inr (ToonText env note), st') \<Longrightarrow>
   \<exists>d xs. upstream w (last (requests st')) = HttpOk d
      \<and> cleaned_list ''search_tweets'' d = Inr xs
      \<and> js_get env ''data'' = JArr (slice0 xs (max_bound mi))"
  unfolding searchTweets_def Let_def cleaned_list_def
  by (drule list_op_envelope) simp

lemma getUserTweets_envelope:
  "getUserTweets w st un ui c ir sd mi = (Inr (ToonText env note), st') \<Longrightarrow>
   \<exists>d xs. upstream w (last (requests st')) = HttpOk d
      \<and> cleaned_list ''get_user_tweets'' d = Inr xs
      \<and> js_get env ''data'' = JArr (slice0 xs (max_bound mi))"
  unfolding getUserTweets_def Let_def cleaned_list_def
  by (cases "\<not> str_truthy un \<and> \<not> str_truthy ui") (simp, simp, drule list_op_envelope, simp)

lemma getTweetReplies_envelope:
  "getTweetReplies w st ti c sn un sd mi = (Inr (ToonText env note), st') \<Longrightarrow>
   \<exists>d xs. upstream w (last (requests st')) = HttpOk d
      \<and> cleaned_list ''get_tweet_replies'' d = Inr xs
      \<and> js_get env ''data'' = JArr (slice0 xs (max_bound mi))"
  unfolding getTweetReplies_def Let_def cleaned_list_def
  by (drule list_op_envelope) simp

lemma getUserFollowers_envelope:
  "getUserFollowers w st un c ps sd mi = (Inr (ToonText env note), st') \<Longrightarrow>
   \<exists>d xs. upstream w (last (requests st')) = HttpOk d
      \<and> cleaned_list ''get_user_followers'' d = Inr xs
      \<and> js_get env ''data'' = JArr (slice0 xs (max_bound mi))"
  unfolding getUserFollowers_def Let_def cleaned_list_def
  by (drule list_op_envelope) simp

lemma getUserFollowing_envelope:
  "getUserFollowing w st un c ps sd mi = (Inr (ToonText env note), st') \<Longrightarrow>
   \<exists>d xs. upstream w (last (requests st')) = HttpOk d
      \<and> cleaned_list ''get_user_following'' d = Inr xs
      \<and> js_get env ''data'' = JArr (slice0 xs (max_bound mi))"
  unfolding getUserFollowing_def Let_def cleaned_list_def
  by (drule list_op_envelope) simp

lemma searchUsers_envelope:
  "searchUsers w st q c sd mi = (Inr (ToonText env note), st') \<Longrightarrow>
   \<exists>d xs. upstream w (last (requests st')) = HttpOk d
      \<and> cleaned_list ''search_users'' d = Inr xs
      \<and> js_get env ''data'' = JArr (slice0 xs (max_bound mi))"
  unfolding searchUsers_def Let_def cleaned_list_def
  by (drule list_op_envelope) simp

lemma callTool_Inr:
  "callTool w st name args = (Inr t, st') \<Longrightarrow> dispatch w st name args = (Inr t, st')"
  by (auto simp: callTool_def split: prod.splits sum.splits js_error.splits)


lemma truncating_tools_cases:
  assumes "name \<in> set truncating_tools"
  obtains "name = ''get_user_tweets''" | "name = ''search_tweets''" | "name = ''get_tweet_replies''"
    | "name = ''get_user_followers''" | "name = ''get_user_following''" | "name = ''search_users''"
proof -
  from assms have "name = ''get_user_tweets'' \<or> name = ''search_tweets''
      \<or> name = ''get_tweet_replies'' \<or> name = ''get_user_followers''
      \<or> name = ''get_user_following'' \<or> name = ''search_users''"
    unfolding truncating_tools_def by (simp only: set_simps insert_iff empty_iff simp_thms)
  then show ?thesis
    using that by (elim disjE) blast+
qed

lemma truncating_envelope:
  assumes "name \<in> set truncating_tools"
    and "callTool w st name (Some a) = (Inr (ToonText env note), st')"
  shows "\<exists>d xs. upstream w (last (requests st')) = HttpOk d
      \<and> cleaned_list name d = Inr xs
      \<and> js_get env ''data'' = JArr (slice0 xs (max_bound (max_items a)))"
proof -
  from assms(2) have d: "dispatch w st name (Some a) = (Inr (ToonText env note), st')"
    by (rule callTool_Inr)
  from assms(1) show ?thesis
  proof (cases rule: truncating_tools_cases)
    case 1
    with d have "getUserTweets w st (username a) (userId a) (cursor a) (includeReplies a)
        (save_dir a) (max_items a) = (Inr (ToonText env note), st')"
      by (simp add: dispatch_def)
    then show ?thesis unfolding 1 by (rule getUserTweets_envelope)
  next
    case 2
    with d have "searchTweets w st (query a) (queryType a) (cursor a) (save_dir a) (max_items a) =
        (Inr (ToonText env note), st')"
      by (simp add: dispatch_def)
    then show ?thesis unfolding 2 by (rule searchTweets_envelope)
  next
    case 3
    with d have "getTweetReplies w st (tweetId a) (cursor a) (sinceTime a) (untilTime a)
        (save_dir a) (max_items a) = (Inr (ToonText env note), st')"
      by (simp add: dispatch_def)
    then show ?thesis unfolding 3 by (rule getTweetReplies_envelope)
  next
    case 4
    with d have "getUserFollowers w st (username a) (cursor a) (pageSize a) (save_dir a)
        (max_items a) = (Inr (ToonText env note), st')"
      by (simp add: dispatch_def)
    then show ?thesis unfolding 4 by (rule getUserFollowers_envelope)
  next
    case 5
    with d have "getUserFollowing w st (username a) (cursor a) (pageSize a) (save_dir a)
        (max_items a) = (Inr (ToonText env note), st')"
      by (simp add: dispatch_def)
    then show ?thesis unfolding 5 by (rule getUserFollowing_envelope)
  next
    case 6
    with d have "searchUsers w st (query a) (cursor a) (save_dir a) (max_items a) =
        (Inr (ToonText env note), st')"
      by (simp add: dispatch_def)
    then show ?thesis unfolding 6 by (rule searchUsers_envelope)
  qed
qed

lemma slice0_nonneg: "0 \<le> n \<Longrightarrow> slice0 xs n = take (nat n) xs"
  by (simp add: slice0_def)

text \<open>
  Claim C1, as amended. For each of the six operations that slice their cleaned list, let
  \<open>N\<close> be \<^verbatim>\<open>max_items\<close> when the caller gives a non-zero one and \<open>10\<close> when it is missing or
  \<open>0\<close>, and let \<open>N\<close> not be negative. When the call returns an envelope, its data array is
  the first \<open>N\<close> elements of the cleaned list of the upstream answer, in their order: its
  length is \<open>min L N\<close>, and it is the whole cleaned list when \<open>L \<le> N\<close>. The claim as
  written takes the caller's bound as it is, so a bound of \<open>0\<close> would give an empty array.
\<close>

theorem truncation_keeps_prefix:
  assumes "name \<in> set truncating_tools"
    and "callTool w st name (Some a) = (Inr (ToonText env note), st')"
    and "0 \<le> max_bound (max_items a)"
  shows "max_bound (max_items a) =
           (case max_items a of None \<Rightarrow> 10 | Some m \<Rightarrow> if m = 0 then 10 else m)
       \<and> (\<exists>d cleaned.
             upstream w (last (requests st')) = HttpOk d
           \<and> cleaned_list name d = Inr cleaned
           \<and> js_get env ''data'' = JArr (take (nat (max_bound (max_items a))) cleaned)
           \<and> length (take (nat (max_bound (max_items a))) cleaned) =
               min (length cleaned) (nat (max_bound (max_items a)))
           \<and> (length cleaned \<le> nat (max_bound (max_items a)) \<longrightarrow>
                js_get env ''data'' = JArr cleaned))"
proof -
  have bound: "max_bound (max_items a) =
           (case max_items a of None \<Rightarrow> 10 | Some m \<Rightarrow> if m = 0 then 10 else m)"
    by (cases "max_items a") (simp_all add: max_bound_def)
  from truncating_envelope [OF assms(1,2)] obtain d xs where
    ok: "upstream w (last (requests st')) = HttpOk d" "cleaned_list name d = Inr xs"
    and data: "js_get env ''data'' = JArr (slice0 xs (max_bound (max_items a)))"
    by blast
  from data assms(3) have prefix: "js_get env ''data'' = JArr (take (nat (max_bound (max_items a))) xs)"
    by (simp add: slice0_nonneg)
  have len: "length (take (nat (max_bound (max_items a))) xs) =
               min (length xs) (nat (max_bound (max_items a)))"
    by simp
  have whole: "length xs \<le> nat (max_bound (max_items a)) \<longrightarrow> js_get env ''data'' = JArr xs"
    using prefix by simp
  from ok prefix len whole have "\<exists>d cleaned.
             upstream w (last (requests st')) = HttpOk d
           \<and> cleaned_list name d = Inr cleaned
           \<and> js_get env ''data'' = JArr (take (nat (max_bound (max_items a))) cleaned)
           \<and> length (take (nat (max_bound (max_items a))) cleaned) =
               min (length cleaned) (nat (max_bound (max_items a)))
           \<and> (length cleaned \<le> nat (max_bound (max_items a)) \<longrightarrow>
                js_get env ''data'' = JArr cleaned)"
    by blast
  with bound show ?thesis ..
qed

lemma truthy_tweet_with_id: "truthy (tweet_with_id i)"
  by (simp add: tweet_with_id_def)

lemma search_three:
  "callTool (answering (HttpOk page_of_three)) fresh_server ''search_tweets''
     (Some (no_args\<lparr>query := Some ''AI'', max_items := mi\<rparr>)) =
   (Inr (ToonText
      (JObj [(''data'',
              JArr (slice0 [canonical_tweet (tweet_with_id ''1''), canonical_tweet (tweet_with_id ''2''),
                            canonical_tweet (tweet_with_id ''3'')] (max_bound mi))),
             (''pagination'', JObj [(''hasNextPage'', JBool True), (''nextCursor'', JStr ''abc'')])])
      []),
    fresh_server\<lparr>requests :=
      [\<lparr>req_method = GET, req_endpoint = ''/tweet/advanced_search'',
        req_payload = JObj [(''query'', JStr ''AI''), (''queryType'', JStr ''Latest'')],
        req_headers = JObj [(''x-api-key'', JStr ''key'')]\<rparr>]\<rparr>)"
  by (simp add: callTool_def dispatch_def searchTweets_def makeRequest_cases answering_sel
        no_args_def bind_r_def js_prop_def js_or_def cleanTweetList_array canonical_tweet_truthy
        truthy_tweet_with_id pagination_of_def obj_r_def reply_def formatResponse_def
        envelope_def saved_note_def spread_saveDir_def Let_def fresh_server_def auth_headers_def
        page_of_three_def)

lemma cleaned_three:
  "cleaned_list ''search_tweets'' page_of_three =
     Inr [canonical_tweet (tweet_with_id ''1''), canonical_tweet (tweet_with_id ''2''),
          canonical_tweet (tweet_with_id ''3'')]"
  "cleaned_list ''get_tweet_by_id'' page_of_three =
     Inr [canonical_tweet (tweet_with_id ''1''), canonical_tweet (tweet_with_id ''2''),
          canonical_tweet (tweet_with_id ''3'')]"
  by (simp_all add: cleaned_list_def bind_r_def js_prop_def js_or_def cleanTweetList_array
        canonical_tweet_truthy truthy_tweet_with_id page_of_three_def)

theorem truncation_keeps_prefix_witness:
  "''search_tweets'' \<in> set truncating_tools
   \<and> callTool (answering (HttpOk page_of_three)) fresh_server ''search_tweets''
        (Some (no_args\<lparr>query := Some ''AI'', max_items := Some 2\<rparr>)) =
      (Inr (ToonText
         (JObj [(''data'',
                 JArr [canonical_tweet (tweet_with_id ''1''), canonical_tweet (tweet_with_id ''2'')]),
                (''pagination'', JObj [(''hasNextPage'', JBool True), (''nextCursor'', JStr ''abc'')])])
         []),
       fresh_server\<lparr>requests :=
         [\<lparr>req_method = GET, req_endpoint = ''/tweet/advanced_search'',
           req_payload = JObj [(''query'', JStr ''AI''), (''queryType'', JStr ''Latest'')],
           req_headers = JObj [(''x-api-key'', JStr ''key'')]\<rparr>]\<rparr>)
   \<and> max_bound (max_items (no_args\<lparr>query := Some ''AI'', max_items := Some 2\<rparr>)) = 2
   \<and> (\<exists>cleaned.
         cleaned_list ''search_tweets'' page_of_three = Inr cleaned
       \<and> JArr [canonical_tweet (tweet_with_id ''1''), canonical_tweet (tweet_with_id ''2'')] =
           JArr (take 2 cleaned)
       \<and> length (take 2 cleaned) = min (length cleaned) 2)"
proof -
  let ?a = "no_args\<lparr>query := Some ''AI'', max_items := Some 2\<rparr>"
  let ?env = "JObj [(''data'',
                 JArr [canonical_tweet (tweet_with_id ''1''), canonical_tweet (tweet_with_id ''2'')]),
                (''pagination'', JObj [(''hasNextPage'', JBool True), (''nextCursor'', JStr ''abc'')])]"
  let ?st = "fresh_server\<lparr>requests :=
         [\<lparr>req_method = GET, req_endpoint = ''/tweet/advanced_search'',
           req_payload = JObj [(''query'', JStr ''AI''), (''queryType'', JStr ''Latest'')],
           req_headers = JObj [(''x-api-key'', JStr ''key'')]\<rparr>]\<rparr>"
  have m: "''search_tweets'' \<in> set truncating_tools"
    by (simp add: truncating_tools_def)
  have b: "max_bound (max_items ?a) = 2"
    by (simp add: max_bound_def)
  have call: "callTool (answering (HttpOk page_of_three)) fresh_server ''search_tweets'' (Some ?a) =
      (Inr (ToonText ?env []), ?st)"
    by (simp add: search_three max_bound_def slice0_def)
  have nonneg: "0 \<le> max_bound (max_items ?a)"
    using b by simp
  from truncation_keeps_prefix [OF m call nonneg] obtain d cleaned where
    d: "upstream (answering (HttpOk page_of_three)) (last (requests ?st)) = HttpOk d"
    and c: "cleaned_list ''search_tweets'' d = Inr cleaned"
       "js_get ?env ''data'' = JArr (take (nat (max_bound (max_items ?a))) cleaned)"
       "length (take (nat (max_bound (max_items ?a))) cleaned) =
          min (length cleaned) (nat (max_bound (max_items ?a)))"
    by blast
  from d have "d = page_of_three"
    by (simp add: answering_sel)
  with c b have "cleaned_list ''search_tweets'' page_of_three = Inr cleaned
       \<and> JArr [canonical_tweet (tweet_with_id ''1''), canonical_tweet (tweet_with_id ''2'')] =
           JArr (take 2 cleaned)
       \<and> length (take 2 cleaned) = min (length cleaned) 2"
    by simp
  then have "\<exists>cleaned.
         cleaned_list ''search_tweets'' page_of_three = Inr cleaned
       \<and> JArr [canonical_tweet (tweet_with_id ''1''), canonical_tweet (tweet_with_id ''2'')] =
           JArr (take 2 cleaned)
       \<and> length (take 2 cleaned) = min (length cleaned) 2"
    by blast
  with m call b show ?thesis
    by (intro conjI)
qed

text \<open>
  The claim as written fails on \<^verbatim>\<open>search_tweets\<close> with \<^verbatim>\<open>max_items: 0\<close> and three tweets
  upstream: \<^verbatim>\<open>maxItems || 10\<close> takes the default, and all three are returned.
\<close>

theorem zero_bound_counterexample:
  "callTool (answering (HttpOk page_of_three)) fresh_server ''search_tweets''
        (Some (no_args\<lparr>query := Some ''AI'', max_items := Some 0\<rparr>)) =
      (Inr (ToonText
         (JObj [(''data'',
                 JArr [canonical_tweet (tweet_with_id ''1''), canonical_tweet (tweet_with_id ''2''),
                       canonical_tweet (tweet_with_id ''3'')]),
                (''pagination'', JObj [(''hasNextPage'', JBool True), (''nextCursor'', JStr ''abc'')])])
         []),
       fresh_server\<lparr>requests :=
         [\<lparr>req_method = GET, req_endpoint = ''/tweet/advanced_search'',
           req_payload = JObj [(''query'', JStr ''AI''), (''queryType'', JStr ''Latest'')],
           req_headers = JObj [(''x-api-key'', JStr ''key'')]\<rparr>]\<rparr>)
   \<and> cleaned_list ''search_tweets'' page_of_three =
       Inr [canonical_tweet (tweet_with_id ''1''), canonical_tweet (tweet_with_id ''2''),
            canonical_tweet (tweet_with_id ''3'')]
   \<and> length [canonical_tweet (tweet_with_id ''1''), canonical_tweet (tweet_with_id ''2''),
              canonical_tweet (tweet_with_id ''3'')] \<noteq>
       min (length [canonical_tweet (tweet_with_id ''1''), canonical_tweet (tweet_with_id ''2''),
                    canonical_tweet (tweet_with_id ''3'')]) (nat 0)"
  by (simp add: search_three cleaned_three max_bound_def slice0_def)

text \<open>
  Claim C2 fails on the code. \<^verbatim>\<open>getTweetById\<close> takes \<^verbatim>\<open>maxItems\<close> and never reads it: with
  \<^verbatim>\<open>max_items: 1\<close> and three tweets upstream, the envelope holds all three cleaned tweets,
  while its six siblings slice to \<^verbatim>\<open>maxItems || 10\<close>.
\<close>

theorem get_tweet_by_id_ignores_max_items:
  "callTool (answering (HttpOk page_of_three)) fresh_server ''get_tweet_by_id''
        (Some (no_args\<lparr>tweet_ids := Some [''1'', ''2'', ''3''], max_items := Some 1\<rparr>)) =
      (Inr (ToonText
         (JObj [(''data'',
                 JArr [canonical_tweet (tweet_with_id ''1''), canonical_tweet (tweet_with_id ''2''),
                       canonical_tweet (tweet_with_id ''3'')])])
         []),
       fresh_server\<lparr>requests :=
         [\<lparr>req_method = GET, req_endpoint = ''/tweets'',
           req_payload = JObj [(''tweet_ids'', JStr ''1,2,3'')],
           req_headers = JObj [(''x-api-key'', JStr ''key'')]\<rparr>]\<rparr>)
   \<and> cleaned_list ''get_tweet_by_id'' page_of_three =
       Inr [canonical_tweet (tweet_with_id ''1''), canonical_tweet (tweet_with_id ''2''),
            canonical_tweet (tweet_with_id ''3'')]
   \<and> max_bound (Some 1) = 1"
proof -
  have "callTool (answering (HttpOk page_of_three)) fresh_server ''get_tweet_by_id''
        (Some (no_args\<lparr>tweet_ids := Some [''1'', ''2'', ''3''], max_items := Some 1\<rparr>)) =
      (Inr (ToonText
         (JObj [(''data'',
                 JArr [canonical_tweet (tweet_with_id ''1''), canonical_tweet (tweet_with_id ''2''),
                       canonical_tweet (tweet_with_id ''3'')])])
         []),
       fresh_server\<lparr>requests :=
         [\<lparr>req_method = GET, req_endpoint = ''/tweets'',
           req_payload = JObj [(''tweet_ids'', JStr ''1,2,3'')],
           req_headers = JObj [(''x-api-key'', JStr ''key'')]\<rparr>]\<rparr>)"
    by (simp add: callTool_def dispatch_def getTweetById_def makeRequest_cases answering_sel
        no_args_def bind_r_def js_prop_def js_or_def cleanTweetList_array canonical_tweet_truthy
        truthy_tweet_with_id reply_def formatResponse_def
        envelope_def saved_note_def spread_saveDir_def Let_def fresh_server_def auth_headers_def
        page_of_three_def)
  with cleaned_three(2) show ?thesis
    by (simp add: max_bound_def)
qed

section \<open>Persistence\<close>

lemma saveData_written:
  assumes "existsSync st dir \<or> mkdir_error w dir = None"
    and "write_error w (save_path w dir tn) = None"
  shows "fst (saveData w st payload dir tn) = save_path w dir tn"
    and "files (snd (saveData w st payload dir tn)) =
           (files st)(save_path w dir tn \<mapsto> JsonText payload)"
  using assms by (auto simp: saveData_def save_path_def Let_def split: option.splits)

lemma saveData_mkdir_failed:
  assumes "\<not> existsSync st dir" and "mkdir_error w dir = Some e"
  shows "saveData w st payload dir tn = (''Error saving: '' @ e, st)"
  using assms by (simp add: saveData_def)

lemma saveData_write_failed:
  assumes "existsSync st dir \<or> mkdir_error w dir = None"
    and "write_error w (save_path w dir tn) = Some e"
  shows "fst (saveData w st payload dir tn) = ''Error saving: '' @ e"
    and "files (snd (saveData w st payload dir tn)) = files st"
  using assms by (auto simp: saveData_def save_path_def Let_def split: option.splits)

lemma formatResponse_saving:
  assumes "sd \<noteq> []" and "tn \<noteq> []"
  shows "formatResponse w st c (Some sd) (Some tn) pg =
           (ToonText (envelope c pg) (saved_note (fst (saveData w st (envelope c pg) sd tn))),
            snd (saveData w st (envelope c pg) sd tn))"
  using assms by (simp add: formatResponse_def Let_def split: prod.splits)

lemma json_fields_length: "length (json_fields kvs) \<le> length kvs"
  by (induction kvs) auto

lemma json_fields_shorter: "json_fields kvs \<noteq> kv # kvs"
proof
  assume "json_fields kvs = kv # kvs"
  then have "length (json_fields kvs) = Suc (length kvs)" by simp
  with json_fields_length [of kvs] show False by simp
qed

lemma json_image_fixed:
  "v \<noteq> JUndefined \<longrightarrow> (json_image v = v \<longleftrightarrow> undefined_free v)"
  "json_items xs = xs \<longleftrightarrow> undefined_free_items xs"
  "json_fields kvs = kvs \<longleftrightarrow> undefined_free_fields kvs"
proof (induction v and xs and kvs rule: json_image_json_items_json_fields.induct)
  case (9 x xs)
  then show ?case by (cases "x = JUndefined") auto
next
  case (11 k v kvs)
  then show ?case by (cases "v = JUndefined") (auto simp: json_fields_shorter)
qed simp_all

lemma json_image_undefined_free:
  "v \<noteq> JUndefined \<longrightarrow> undefined_free (json_image v)"
  "undefined_free_items (json_items xs)"
  "undefined_free_fields (json_fields kvs)"
  by (induction v and xs and kvs rule: json_image_json_items_json_fields.induct) auto

lemma envelope_parsed:
  "json_parse (JsonText (envelope c pg)) = Some (json_image (envelope c pg))"
  "json_image (envelope c pg) = envelope c pg \<longleftrightarrow> undefined_free (envelope c pg)"
  "undefined_free (json_image (envelope c pg))"
  using json_image_fixed(1) [of "envelope c pg"] json_image_undefined_free(1) [of "envelope c pg"]
  by (simp_all add: envelope_def)

lemma makeRequest_disk:
  "makeRequest w st ep params = (res, st1) \<Longrightarrow> dirs st1 = dirs st \<and> files st1 = files st"
  by (auto simp: makeRequest_cases)

lemma list_op_form:
  "\<exists>r. same_disk st r \<and>
     (\<forall>sd. (case makeRequest w st ep params of
              (Inl e, st1) \<Rightarrow> (Inl e, st1)
            | (Inr d, st1) \<Rightarrow>
                (case bind_r (sel d) (\<lambda>raw. bind_r (cl raw) (\<lambda>xs. bind_r (pagination_of d)
                        (\<lambda>p. Inr (slice0 xs n, p)))) of
                   Inl e \<Rightarrow> (Inl e, st1)
                 | Inr (cleaned, p) \<Rightarrow>
                     reply (formatResponse w st1 (JArr cleaned) (spread_saveDir sd) (Some tn) p))) =
            finish w sd tn r)"
proof (cases "makeRequest w st ep params")
  case (Pair res st1)
  note disk = makeRequest_disk [OF Pair]
  show ?thesis
  proof (cases res)
    case (Inl e)
    with Pair show ?thesis
      by (intro exI [of _ "Inl (e, st1)"]) (simp add: finish_def same_disk_def)
  next
    case (Inr d)
    show ?thesis
    proof (cases "bind_r (sel d) (\<lambda>raw. bind_r (cl raw) (\<lambda>xs. bind_r (pagination_of d)
                        (\<lambda>p. Inr (slice0 xs n, p))))")
      case (Inl e)
      with Pair Inr show ?thesis
        by (intro exI [of _ "Inl (e, st1)"]) (simp add: finish_def same_disk_def)
    next
      case shaped: (Inr cp)
      obtain cleaned p where cp: "cp = (cleaned, p)" by (cases cp)
      with Pair Inr shaped disk show ?thesis
        by (intro exI [of _ "Inr (JArr cleaned, p, st1)"]) (simp add: finish_def same_disk_def)
    qed
  qed
qed

lemma plain_op_form:
  "\<exists>r. same_disk st r \<and>
     (\<forall>sd. (case makeRequest w st ep params of
              (Inl e, st1) \<Rightarrow> (Inl e, st1)
            | (Inr d, st1) \<Rightarrow>
                (case sh d of
                   Inl e \<Rightarrow> (Inl e, st1)
                 | Inr cleaned \<Rightarrow>
                     reply (formatResponse w st1 (f cleaned) (spread_saveDir sd) (Some tn) JUndefined))) =
            finish w sd tn r)"
proof (cases "makeRequest w st ep params")
  case (Pair res st1)
  note disk = makeRequest_disk [OF Pair]
  show ?thesis
  proof (cases res)
    case (Inl e)
    with Pair show ?thesis
      by (intro exI [of _ "Inl (e, st1)"]) (simp add: finish_def same_disk_def)
  next
    case (Inr d)
    show ?thesis
    proof (cases "sh d")
      case (Inl e)
      with Pair Inr show ?thesis
        by (intro exI [of _ "Inl (e, st1)"]) (simp add: finish_def same_disk_def)
    next
      case shaped: (Inr cleaned)
      with Pair Inr disk show ?thesis
        by (intro exI [of _ "Inr (f cleaned, JUndefined, st1)"]) (simp add: finish_def same_disk_def)
    qed
  qed
qed

lemma getUserByUsername_form:
  "\<exists>r. same_disk st r \<and>
     (\<forall>sd. getUserByUsername w st un sd mi = finish w sd ''get_user_by_username'' r)"
  unfolding getUserByUsername_def by (rule plain_op_form [where f = "\<lambda>c. c"])

lemma getUserById_form:
  "\<exists>r. same_disk st r \<and> (\<forall>sd. getUserById w st ui sd mi = finish w sd ''get_user_by_id'' r)"
  unfolding getUserById_def by (rule plain_op_form [where f = "\<lambda>c. c"])

lemma getTweetById_form:
  "\<exists>r. same_disk st r \<and> (\<forall>sd. getTweetById w st ids sd mi = finish w sd ''get_tweet_by_id'' r)"
proof (cases ids)
  case None
  then show ?thesis
    by (intro exI [of _ "Inl (TypeError (cannot_read JUndefined ''join''), st)"])
      (simp add: getTweetById_def finish_def same_disk_def)
next
  case (Some xs)
  then show ?thesis
    unfolding getTweetById_def by (simp only: option.case) (rule plain_op_form [where f = JArr])
qed

lemma getUserTweets_form:
  "\<exists>r. same_disk st r \<and>
     (\<forall>sd. getUserTweets w st un ui c ir sd mi = finish w sd ''get_user_tweets'' r)"
proof (cases "\<not> str_truthy un \<and> \<not> str_truthy ui")
  case True
  then show ?thesis
    by (intro exI [of _ "Inl (Error ''Either username or userId must be provided'', st)"])
      (simp add: getUserTweets_def finish_def same_disk_def)
next
  case False
  then show ?thesis
    unfolding getUserTweets_def Let_def by (simp only: if_False) (rule list_op_form)
qed

lemma searchTweets_form:
  "\<exists>r. same_disk st r \<and> (\<forall>sd. searchTweets w st q qt c sd mi = finish w sd ''search_tweets'' r)"
  unfolding searchTweets_def Let_def by (rule list_op_form)

lemma getTweetReplies_form:
  "\<exists>r. same_disk st r \<and>
     (\<forall>sd. getTweetReplies w st ti c sn un sd mi = finish w sd ''get_tweet_replies'' r)"
  unfolding getTweetReplies_def Let_def by (rule list_op_form)

lemma getUserFollowers_form:
  "\<exists>r. same_disk st r \<and>
     (\<forall>sd. getUserFollowers w st un c ps sd mi = finish w sd ''get_user_followers'' r)"
  unfolding getUserFollowers_def Let_def by (rule list_op_form)

lemma getUserFollowing_form:
  "\<exists>r. same_disk st r \<and>
     (\<forall>sd. getUserFollowing w st un c ps sd mi = finish w sd ''get_user_following'' r)"
  unfolding getUserFollowing_def Let_def by (rule list_op_form)

lemma searchUsers_form:
  "\<exists>r. same_disk st r \<and> (\<forall>sd. searchUsers w st q c sd mi = finish w sd ''search_users'' r)"
  unfolding searchUsers_def Let_def by (rule list_op_form)

lemma read_tools_cases:
  assumes "name \<in> set read_tools"
  obtains "name = ''get_user_by_username''" | "name = ''get_user_by_id''"
    | "name = ''get_user_tweets''" | "name = ''search_tweets''" | "name = ''get_tweet_by_id''"
    | "name = ''get_tweet_replies''" | "name = ''get_user_followers''"
    | "name = ''get_user_following''" | "name = ''search_users''"
proof -
  from assms have "name = ''get_user_by_username'' \<or> name = ''get_user_by_id''
      \<or> name = ''get_user_tweets'' \<or> name = ''search_tweets'' \<or> name = ''get_tweet_by_id''
      \<or> name = ''get_tweet_replies'' \<or> name = ''get_user_followers''
      \<or> name = ''get_user_following'' \<or> name = ''search_users''"
    unfolding read_tools_def by (simp only: set_simps insert_iff empty_iff simp_thms)
  then show ?thesis
    using that by (elim disjE) blast+
qed

lemma read_tools_nonempty: "name \<in> set read_tools \<Longrightarrow> name \<noteq> []"
  by (erule read_tools_cases) simp_all

lemma dispatch_read_form:
  assumes "name \<in> set read_tools"
  shows "\<exists>r. same_disk st r \<and>
           (\<forall>sd. dispatch w st name (Some (a\<lparr>save_dir := sd\<rparr>)) = finish w sd name r)"
  using assms
proof (cases rule: read_tools_cases)
  case 1
  from getUserByUsername_form [of st w "username a" "max_items a"] show ?thesis
    unfolding 1 by (simp add: dispatch_def)
next
  case 2
  from getUserById_form [of st w "user_id a" "max_items a"] show ?thesis
    unfolding 2 by (simp add: dispatch_def)
next
  case 3
  from getUserTweets_form [of st w "username a" "userId a" "cursor a" "includeReplies a"
      "max_items a"] show ?thesis
    unfolding 3 by (simp add: dispatch_def)
next
  case 4
  from searchTweets_form [of st w "query a" "queryType a" "cursor a" "max_items a"]
  show ?thesis
    unfolding 4 by (simp add: dispatch_def)
next
  case 5
  from getTweetById_form [of st w "tweet_ids a" "max_items a"] show ?thesis
    unfolding 5 by (simp add: dispatch_def)
next
  case 6
  from getTweetReplies_form [of st w "tweetId a" "cursor a" "sinceTime a" "untilTime a"
      "max_items a"] show ?thesis
    unfolding 6 by (simp add: dispatch_def)
next
  case 7
  from getUserFollowers_form [of st w "username a" "cursor a" "pageSize a" "max_items a"]
  show ?thesis
    unfolding 7 by (simp add: dispatch_def)
next
  case 8
  from getUserFollowing_form [of st w "username a" "cursor a" "pageSize a" "max_items a"]
  show ?thesis
    unfolding 8 by (simp add: dispatch_def)
next
  case 9
  from searchUsers_form [of st w "query a" "cursor a" "max_items a"] show ?thesis
    unfolding 9 by (simp add: dispatch_def)
qed

lemma callTool_Inr_iff:
  "callTool w st name args = (Inr t, st') \<longleftrightarrow> dispatch w st name args = (Inr t, st')"
  by (auto simp: callTool_def split: prod.splits sum.splits js_error.splits)

lemma formatResponse_plain:
  "formatResponse w st c None tn pg = (ToonText (envelope c pg) [], st)"
  by (simp add: formatResponse_def saved_note_def)

lemma finish_plain:
  "finish w None tn r = (Inr (ToonText env note), st') \<longleftrightarrow>
     (\<exists>c pg. r = Inr (c, pg, st') \<and> env = envelope c pg \<and> note = [])"
  by (cases r)
    (auto simp: finish_def spread_saveDir_def formatResponse_plain reply_def)

lemma finish_saving:
  assumes "sd \<noteq> []" and "tn \<noteq> []"
  shows "finish w (Some sd) tn r = (Inr (ToonText env note), st') \<longleftrightarrow>
     (\<exists>c pg s1. r = Inr (c, pg, s1) \<and> env = envelope c pg
        \<and> note = saved_note (fst (saveData w s1 env sd tn))
        \<and> st' = snd (saveData w s1 env sd tn))"
  using assms
  by (cases r)
    (auto simp: finish_def spread_saveDir_def formatResponse_saving reply_def)

lemma existsSync_same_disk:
  "dirs s1 = dirs st \<Longrightarrow> files s1 = files st \<Longrightarrow> existsSync s1 p = existsSync st p"
  by (simp add: existsSync_def)

lemma saved_call:
  assumes "name \<in> set read_tools" and "save_dir a = Some sd" and "sd \<noteq> []"
  shows "\<exists>r. same_disk st r
     \<and> (\<forall>env note st'. callTool w st name (Some a) = (Inr (ToonText env note), st') \<longleftrightarrow>
          (\<exists>c pg s1. r = Inr (c, pg, s1) \<and> env = envelope c pg
             \<and> note = saved_note (fst (saveData w s1 env sd name))
             \<and> st' = snd (saveData w s1 env sd name)))
     \<and> (\<forall>env note st0. callTool w st name (Some (a\<lparr>save_dir := None\<rparr>)) =
            (Inr (ToonText env note), st0) \<longleftrightarrow>
          (\<exists>c pg. r = Inr (c, pg, st0) \<and> env = envelope c pg \<and> note = []))"
proof -
  from assms(2) have a: "a\<lparr>save_dir := Some sd\<rparr> = a"
    by simp
  from dispatch_read_form [OF assms(1), of st w a] obtain r where
    disk: "same_disk st r"
    and form: "\<And>s. dispatch w st name (Some (a\<lparr>save_dir := s\<rparr>)) = finish w s name r"
    by blast
  from form [of "Some sd"] have with_dir: "dispatch w st name (Some a) = finish w (Some sd) name r"
    by (simp add: a)
  note tn = read_tools_nonempty [OF assms(1)]
  show ?thesis
    by (intro exI [of _ r] conjI allI disk)
      (simp_all add: callTool_Inr_iff with_dir form finish_saving [OF assms(3) tn] finish_plain)
qed


text \<open>
  Claim C9, as amended. Let one of the nine read tools be called with a non-empty save
  directory. The call returns an envelope exactly when the same call without a save
  directory returns it, so saving, done or failed, never fails the call, and the two
  response texts differ only in the trailing note. When the call returns and the directory
  exists or can be made and the write succeeds, the note names the saved path and exactly
  one file is written, at that path, holding \<^verbatim>\<open>JSON.stringify\<close> of the envelope of the
  response text; it is a new file when none of that name was there. Its parsed contents are
  the JSON image of the envelope, which holds no \<^verbatim>\<open>undefined\<close>: they equal the envelope
  exactly when the envelope holds no \<^verbatim>\<open>undefined\<close>. When making the directory or writing
  the file throws, the note carries \<^verbatim>\<open>Error saving\<close> and the exception, and no file is
  written.
\<close>

theorem persisted_payload_is_envelope:
  assumes "name \<in> set read_tools" and "save_dir a = Some sd" and "sd \<noteq> []"
  shows
    "(\<forall>env. (\<exists>note st'. callTool w st name (Some a) = (Inr (ToonText env note), st'))
            \<longleftrightarrow> (\<exists>st0. callTool w st name (Some (a\<lparr>save_dir := None\<rparr>)) =
                         (Inr (ToonText env []), st0)))
     \<and> (\<forall>env note st'.
          callTool w st name (Some a) = (Inr (ToonText env note), st') \<longrightarrow>
          ((existsSync st sd \<or> mkdir_error w sd = None)
              \<and> write_error w (save_path w sd name) = None \<longrightarrow>
             note = saved_note (save_path w sd name)
           \<and> files st' = (files st)(save_path w sd name \<mapsto> JsonText env)
           \<and> (files st (save_path w sd name) = None \<longrightarrow>
                dom (files st') - dom (files st) = {save_path w sd name})
           \<and> json_parse (JsonText env) = Some (json_image env)
           \<and> undefined_free (json_image env)
           \<and> (json_image env = env \<longleftrightarrow> undefined_free env))
        \<and> (\<forall>e. (\<not> existsSync st sd \<and> mkdir_error w sd = Some e)
                \<or> ((existsSync st sd \<or> mkdir_error w sd = None)
                     \<and> write_error w (save_path w sd name) = Some e) \<longrightarrow>
             note = saved_note (''Error saving: '' @ e) \<and> files st' = files st))"
proof -
  from saved_call [OF assms, of st w] obtain r where
    r: "same_disk st r
     \<and> (\<forall>env nt st'. callTool w st name (Some a) = (Inr (ToonText env nt), st') \<longleftrightarrow>
          (\<exists>c pg s1. r = Inr (c, pg, s1) \<and> env = envelope c pg
             \<and> nt = saved_note (fst (saveData w s1 env sd name))
             \<and> st' = snd (saveData w s1 env sd name)))
     \<and> (\<forall>env nt st0. callTool w st name (Some (a\<lparr>save_dir := None\<rparr>)) =
            (Inr (ToonText env nt), st0) \<longleftrightarrow>
          (\<exists>c pg. r = Inr (c, pg, st0) \<and> env = envelope c pg \<and> nt = []))"
    ..
  note disk = r [THEN conjunct1]
  note saving = r [THEN conjunct2, THEN conjunct1, rule_format]
  note plain = r [THEN conjunct2, THEN conjunct2, rule_format]
  have same: "\<forall>env. (\<exists>nt st'. callTool w st name (Some a) = (Inr (ToonText env nt), st'))
            \<longleftrightarrow> (\<exists>st0. callTool w st name (Some (a\<lparr>save_dir := None\<rparr>)) =
                         (Inr (ToonText env []), st0))"
  proof (intro allI iffI)
    fix env
    assume "\<exists>nt st'. callTool w st name (Some a) = (Inr (ToonText env nt), st')"
    then obtain nt st' where "callTool w st name (Some a) = (Inr (ToonText env nt), st')"
      by blast
    with saving obtain c pg s1 where "r = Inr (c, pg, s1)" "env = envelope c pg"
      by blast
    then have "callTool w st name (Some (a\<lparr>save_dir := None\<rparr>)) = (Inr (ToonText env []), s1)"
      by (simp add: plain)
    then show "\<exists>st0. callTool w st name (Some (a\<lparr>save_dir := None\<rparr>)) =
                         (Inr (ToonText env []), st0)"
      by (rule exI)
  next
    fix env
    assume "\<exists>st0. callTool w st name (Some (a\<lparr>save_dir := None\<rparr>)) =
                         (Inr (ToonText env []), st0)"
    then obtain st0 where "callTool w st name (Some (a\<lparr>save_dir := None\<rparr>)) =
                         (Inr (ToonText env []), st0)"
      by blast
    with plain obtain c pg where "r = Inr (c, pg, st0)" "env = envelope c pg"
      by blast
    then have "callTool w st name (Some a) =
        (Inr (ToonText env (saved_note (fst (saveData w st0 env sd name)))),
         snd (saveData w st0 env sd name))"
      by (simp add: saving)
    then show "\<exists>nt st'. callTool w st name (Some a) = (Inr (ToonText env nt), st')"
      by blast
  qed
  have saved: "\<forall>env nt st'.
          callTool w st name (Some a) = (Inr (ToonText env nt), st') \<longrightarrow>
          ((existsSync st sd \<or> mkdir_error w sd = None)
              \<and> write_error w (save_path w sd name) = None \<longrightarrow>
             nt = saved_note (save_path w sd name)
           \<and> files st' = (files st)(save_path w sd name \<mapsto> JsonText env)
           \<and> (files st (save_path w sd name) = None \<longrightarrow>
                dom (files st') - dom (files st) = {save_path w sd name})
           \<and> json_parse (JsonText env) = Some (json_image env)
           \<and> undefined_free (json_image env)
           \<and> (json_image env = env \<longleftrightarrow> undefined_free env))
        \<and> (\<forall>e. (\<not> existsSync st sd \<and> mkdir_error w sd = Some e)
                \<or> ((existsSync st sd \<or> mkdir_error w sd = None)
                     \<and> write_error w (save_path w sd name) = Some e) \<longrightarrow>
             nt = saved_note (''Error saving: '' @ e) \<and> files st' = files st)"
  proof (intro allI impI)
    fix env nt st'
    assume "callTool w st name (Some a) = (Inr (ToonText env nt), st')"
    with saving obtain c pg s1 where
      r: "r = Inr (c, pg, s1)" and env: "env = envelope c pg"
      and nt_eq: "nt = saved_note (fst (saveData w s1 env sd name))"
      and st': "st' = snd (saveData w s1 env sd name)"
      by blast
    from disk r have d: "dirs s1 = dirs st" "files s1 = files st"
      by (simp_all add: same_disk_def)
    note ex = existsSync_same_disk [OF d]
    have written: "nt = saved_note (save_path w sd name)
           \<and> files st' = (files st)(save_path w sd name \<mapsto> JsonText env)
           \<and> (files st (save_path w sd name) = None \<longrightarrow>
                dom (files st') - dom (files st) = {save_path w sd name})
           \<and> json_parse (JsonText env) = Some (json_image env)
           \<and> undefined_free (json_image env)
           \<and> (json_image env = env \<longleftrightarrow> undefined_free env)"
      if ok: "(existsSync st sd \<or> mkdir_error w sd = None)
              \<and> write_error w (save_path w sd name) = None"
    proof -
      from ok have o: "existsSync s1 sd \<or> mkdir_error w sd = None"
        and wr: "write_error w (save_path w sd name) = None"
        by (simp_all add: ex)
      have n: "nt = saved_note (save_path w sd name)"
        by (simp add: nt_eq saveData_written(1) [OF o wr])
      have f: "files st' = (files st)(save_path w sd name \<mapsto> JsonText env)"
        by (simp add: st' saveData_written(2) [OF o wr] d)
      have new: "files st (save_path w sd name) = None \<longrightarrow>
                dom (files st') - dom (files st) = {save_path w sd name}"
        unfolding f by auto
      have p: "json_parse (JsonText env) = Some (json_image env)"
        "undefined_free (json_image env)"
        "json_image env = env \<longleftrightarrow> undefined_free env"
        unfolding env by (rule envelope_parsed)+
      from n f new p show ?thesis
        by (intro conjI)
    qed
    have failed: "nt = saved_note (''Error saving: '' @ e) \<and> files st' = files st"
      if bad: "(\<not> existsSync st sd \<and> mkdir_error w sd = Some e)
                \<or> ((existsSync st sd \<or> mkdir_error w sd = None)
                     \<and> write_error w (save_path w sd name) = Some e)" for e
      using bad
    proof
      assume "\<not> existsSync st sd \<and> mkdir_error w sd = Some e"
      then have "\<not> existsSync s1 sd" "mkdir_error w sd = Some e"
        by (simp_all add: ex)
      then show ?thesis
        by (simp add: nt_eq st' saveData_mkdir_failed d)
    next
      assume "(existsSync st sd \<or> mkdir_error w sd = None)
                     \<and> write_error w (save_path w sd name) = Some e"
      then have "existsSync s1 sd \<or> mkdir_error w sd = None"
        "write_error w (save_path w sd name) = Some e"
        by (simp_all add: ex)
      then show ?thesis
        by (simp add: nt_eq st' saveData_write_failed d)
    qed
    show "((existsSync st sd \<or> mkdir_error w sd = None)
              \<and> write_error w (save_path w sd name) = None \<longrightarrow>
             nt = saved_note (save_path w sd name)
           \<and> files st' = (files st)(save_path w sd name \<mapsto> JsonText env)
           \<and> (files st (save_path w sd name) = None \<longrightarrow>
                dom (files st') - dom (files st) = {save_path w sd name})
           \<and> json_parse (JsonText env) = Some (json_image env)
           \<and> undefined_free (json_image env)
           \<and> (json_image env = env \<longleftrightarrow> undefined_free env))
        \<and> (\<forall>e. (\<not> existsSync st sd \<and> mkdir_error w sd = Some e)
                \<or> ((existsSync st sd \<or> mkdir_error w sd = None)
                     \<and> write_error w (save_path w sd name) = Some e) \<longrightarrow>
             nt = saved_note (''Error saving: '' @ e) \<and> files st' = files st)"
    proof (rule conjI)
      show "(existsSync st sd \<or> mkdir_error w sd = None)
              \<and> write_error w (save_path w sd name) = None \<longrightarrow>
             nt = saved_note (save_path w sd name)
           \<and> files st' = (files st)(save_path w sd name \<mapsto> JsonText env)
           \<and> (files st (save_path w sd name) = None \<longrightarrow>
                dom (files st') - dom (files st) = {save_path w sd name})
           \<and> json_parse (JsonText env) = Some (json_image env)
           \<and> undefined_free (json_image env)
           \<and> (json_image env = env \<longleftrightarrow> undefined_free env)"
        by (rule impI) (rule written)
      show "\<forall>e. (\<not> existsSync st sd \<and> mkdir_error w sd = Some e)
                \<or> ((existsSync st sd \<or> mkdir_error w sd = None)
                     \<and> write_error w (save_path w sd name) = Some e) \<longrightarrow>
             nt = saved_note (''Error saving: '' @ e) \<and> files st' = files st"
        by (intro allI impI) (rule failed)
    qed
  qed
  from same saved show ?thesis ..
qed

theorem persisted_payload_is_envelope_witness:
  "''get_user_by_id'' \<in> set read_tools
   \<and> save_dir (no_args\<lparr>user_id := Some ''7'', save_dir := Some ''out''\<rparr>) = Some ''out''
   \<and> ''out'' \<noteq> []
   \<and> fst (callTool
        (answering (HttpOk (JObj [(''data'', JObj [(''id'', JStr ''7''), (''userName'', JStr ''alice'')])])))
        fresh_server ''get_user_by_id''
        (Some (no_args\<lparr>user_id := Some ''7'', save_dir := Some ''out''\<rparr>))) =
       Inr (ToonText
         (JObj [(''data'',
                JObj [(''id'', JStr ''7''), (''username'', JStr ''alice''), (''name'', JUndefined),
                      (''description'', JUndefined), (''verified'', JUndefined),
                      (''followers'', JUndefined), (''following'', JUndefined),
                      (''tweets'', JUndefined), (''location'', JUndefined), (''url'', JUndefined),
                      (''created'', JUndefined)])])
         (saved_note ''out/get_user_by_id_2024-05-06T07-08-09-010Z.json''))
   \<and> files (snd (callTool
        (answering (HttpOk (JObj [(''data'', JObj [(''id'', JStr ''7''), (''userName'', JStr ''alice'')])])))
        fresh_server ''get_user_by_id''
        (Some (no_args\<lparr>user_id := Some ''7'', save_dir := Some ''out''\<rparr>))))
         ''out/get_user_by_id_2024-05-06T07-08-09-010Z.json'' =
       Some (JsonText
         (JObj [(''data'',
                JObj [(''id'', JStr ''7''), (''username'', JStr ''alice''), (''name'', JUndefined),
                      (''description'', JUndefined), (''verified'', JUndefined),
                      (''followers'', JUndefined), (''following'', JUndefined),
                      (''tweets'', JUndefined), (''location'', JUndefined), (''url'', JUndefined),
                      (''created'', JUndefined)])]))
   \<and> json_parse (JsonText
         (JObj [(''data'',
                JObj [(''id'', JStr ''7''), (''username'', JStr ''alice''), (''name'', JUndefined),
                      (''description'', JUndefined), (''verified'', JUndefined),
                      (''followers'', JUndefined), (''following'', JUndefined),
                      (''tweets'', JUndefined), (''location'', JUndefined), (''url'', JUndefined),
                      (''created'', JUndefined)])])) =
       Some (JObj [(''data'', JObj [(''id'', JStr ''7''), (''username'', JStr ''alice'')])])"
proof -
  let ?w = "answering (HttpOk (JObj [(''data'', JObj [(''id'', JStr ''7''), (''userName'', JStr ''alice'')])]))"
  let ?a = "no_args\<lparr>user_id := Some ''7'', save_dir := Some ''out''\<rparr>"
  let ?env = "JObj [(''data'',
                JObj [(''id'', JStr ''7''), (''username'', JStr ''alice''), (''name'', JUndefined),
                      (''description'', JUndefined), (''verified'', JUndefined),
                      (''followers'', JUndefined), (''following'', JUndefined),
                      (''tweets'', JUndefined), (''location'', JUndefined), (''url'', JUndefined),
                      (''created'', JUndefined)])]"
  let ?path = "''out/get_user_by_id_2024-05-06T07-08-09-010Z.json''"
  have m: "''get_user_by_id'' \<in> set read_tools"
    by (simp add: read_tools_def)
  have sd: "save_dir ?a = Some ''out''" and ne: "''out'' \<noteq> []"
    by simp_all
  have p: "save_path ?w ''out'' ''get_user_by_id'' = ?path"
    by (simp add: save_path_def save_filename_def answering_sel)
  have u: "cleanUser (JObj [(''id'', JStr ''7''), (''userName'', JStr ''alice'')]) =
      Inr (JObj [(''id'', JStr ''7''), (''username'', JStr ''alice''), (''name'', JUndefined),
                      (''description'', JUndefined), (''verified'', JUndefined),
                      (''followers'', JUndefined), (''following'', JUndefined),
                      (''tweets'', JUndefined), (''location'', JUndefined), (''url'', JUndefined),
                      (''created'', JUndefined)])"
    by (simp add: cleanUser_truthy canonical_user_def)
  have plain: "\<exists>st0. callTool ?w fresh_server ''get_user_by_id'' (Some (?a\<lparr>save_dir := None\<rparr>)) =
      (Inr (ToonText ?env []), st0)"
    by (simp add: callTool_def dispatch_def getUserById_def makeRequest_cases answering_sel
          no_args_def bind_r_def js_prop_def js_or_def u reply_def formatResponse_def
          envelope_def saved_note_def spread_saveDir_def Let_def)
  note inst = persisted_payload_is_envelope [OF m sd ne, of ?w fresh_server]
  from inst [THEN conjunct1, rule_format, of ?env] plain obtain nt st' where
    call: "callTool ?w fresh_server ''get_user_by_id'' (Some ?a) = (Inr (ToonText ?env nt), st')"
    by blast
  have ok: "(existsSync fresh_server ''out'' \<or> mkdir_error ?w ''out'' = None)
      \<and> write_error ?w (save_path ?w ''out'' ''get_user_by_id'') = None"
    by (simp add: answering_sel)
  from inst [THEN conjunct2, rule_format, OF call, THEN conjunct1, rule_format, OF ok]
  have saved: "nt = saved_note ?path" "files st' = (files fresh_server)(?path \<mapsto> JsonText ?env)"
    "json_parse (JsonText ?env) = Some (json_image ?env)"
    by (simp_all add: p)
  have img: "json_image ?env = JObj [(''data'', JObj [(''id'', JStr ''7''), (''username'', JStr ''alice'')])]"
    by simp
  from m sd ne call saved img show ?thesis
    by simp
qed

text \<open>
  The claim as written fails on \<^verbatim>\<open>get_user_by_username\<close> with a save directory and the
  upstream user \<^verbatim>\<open>{id: "1"}\<close>: the envelope's user has ten fields that are \<^verbatim>\<open>undefined\<close>,
  and the parsed file has none of them.
\<close>

theorem persisted_round_trip_counterexample:
  "callTool (answering (HttpOk (JObj [(''id'', JStr ''1'')]))) fresh_server ''get_user_by_username''
        (Some (no_args\<lparr>username := Some ''alice'', save_dir := Some ''out''\<rparr>)) =
     (Inr (ToonText
        (JObj [(''data'',
                JObj [(''id'', JStr ''1''), (''username'', JUndefined), (''name'', JUndefined),
                      (''description'', JUndefined), (''verified'', JUndefined),
                      (''followers'', JUndefined), (''following'', JUndefined),
                      (''tweets'', JUndefined), (''location'', JUndefined), (''url'', JUndefined),
                      (''created'', JUndefined)])])
        ([CHR 0x0A, CHR 0x0A]
         @ ''[Cleaned data saved to: out/get_user_by_username_2024-05-06T07-08-09-010Z.json]'')),
      fresh_server\<lparr>
        requests :=
          [\<lparr>req_method = GET, req_endpoint = ''/user/info'',
            req_payload = JObj [(''userName'', JStr ''alice'')],
            req_headers = JObj [(''x-api-key'', JStr ''key'')]\<rparr>],
        dirs := {''out''},
        files := [''out/get_user_by_username_2024-05-06T07-08-09-010Z.json'' \<mapsto>
          JsonText
            (JObj [(''data'',
                JObj [(''id'', JStr ''1''), (''username'', JUndefined), (''name'', JUndefined),
                      (''description'', JUndefined), (''verified'', JUndefined),
                      (''followers'', JUndefined), (''following'', JUndefined),
                      (''tweets'', JUndefined), (''location'', JUndefined), (''url'', JUndefined),
                      (''created'', JUndefined)])])]\<rparr>)
   \<and> json_parse (JsonText
          (JObj [(''data'',
                JObj [(''id'', JStr ''1''), (''username'', JUndefined), (''name'', JUndefined),
                      (''description'', JUndefined), (''verified'', JUndefined),
                      (''followers'', JUndefined), (''following'', JUndefined),
                      (''tweets'', JUndefined), (''location'', JUndefined), (''url'', JUndefined),
                      (''created'', JUndefined)])])) =
       Some (JObj [(''data'', JObj [(''id'', JStr ''1'')])])
   \<and> JObj [(''data'', JObj [(''id'', JStr ''1'')])] \<noteq>
       JObj [(''data'',
                JObj [(''id'', JStr ''1''), (''username'', JUndefined), (''name'', JUndefined),
                      (''description'', JUndefined), (''verified'', JUndefined),
                      (''followers'', JUndefined), (''following'', JUndefined),
                      (''tweets'', JUndefined), (''location'', JUndefined), (''url'', JUndefined),
                      (''created'', JUndefined)])]"
proof -
  let ?w = "answering (HttpOk (JObj [(''id'', JStr ''1'')]))"
  have u: "cleanUser (JObj [(''id'', JStr ''1'')]) =
      Inr (JObj [(''id'', JStr ''1''), (''username'', JUndefined), (''name'', JUndefined),
                      (''description'', JUndefined), (''verified'', JUndefined),
                      (''followers'', JUndefined), (''following'', JUndefined),
                      (''tweets'', JUndefined), (''location'', JUndefined), (''url'', JUndefined),
                      (''created'', JUndefined)])"
    by (simp add: cleanUser_truthy canonical_user_def)
  have call: "callTool ?w fresh_server ''get_user_by_username''
        (Some (no_args\<lparr>username := Some ''alice'', save_dir := Some ''out''\<rparr>)) =
     (Inr (ToonText
        (JObj [(''data'',
                JObj [(''id'', JStr ''1''), (''username'', JUndefined), (''name'', JUndefined),
                      (''description'', JUndefined), (''verified'', JUndefined),
                      (''followers'', JUndefined), (''following'', JUndefined),
                      (''tweets'', JUndefined), (''location'', JUndefined), (''url'', JUndefined),
                      (''created'', JUndefined)])])
        ([CHR 0x0A, CHR 0x0A]
         @ ''[Cleaned data saved to: out/get_user_by_username_2024-05-06T07-08-09-010Z.json]'')),
      fresh_server\<lparr>
        requests :=
          [\<lparr>req_method = GET, req_endpoint = ''/user/info'',
            req_payload = JObj [(''userName'', JStr ''alice'')],
            req_headers = JObj [(''x-api-key'', JStr ''key'')]\<rparr>],
        dirs := {''out''},
        files := [''out/get_user_by_username_2024-05-06T07-08-09-010Z.json'' \<mapsto>
          JsonText
            (JObj [(''data'',
                JObj [(''id'', JStr ''1''), (''username'', JUndefined), (''name'', JUndefined),
                      (''description'', JUndefined), (''verified'', JUndefined),
                      (''followers'', JUndefined), (''following'', JUndefined),
                      (''tweets'', JUndefined), (''location'', JUndefined), (''url'', JUndefined),
                      (''created'', JUndefined)])])]\<rparr>)"
    by (simp add: callTool_def dispatch_def getUserByUsername_def makeRequest_cases answering_sel
          no_args_def bind_r_def js_prop_def js_or_def u reply_def formatResponse_def
          saveData_def existsSync_def save_filename_def
          envelope_def saved_note_def spread_saveDir_def Let_def fresh_server_def auth_headers_def)
  show ?thesis
    by (simp add: call)
qed

end
